theory Spec2Isabelle
  imports Main "HOL-Library.AList" "HOL-Library.Sublist" "HOL-Library.Multiset"
begin

section \<open>Python values used by Plandomizer.py\<close>

text \<open>
  Exceptions are values. Each constructor is a Python exception class and carries the
  message the source formats; \<open>EntranceShuffleError\<close> is the class the entrance
  primitives of EntranceShuffle.py raise.
\<close>

datatype error =
    KeyError string
  | RuntimeError string
  | ValueError string
  | IndexError string
  | TypeError string
  | AttributeError string
  | FillError string
  | EntranceShuffleError string

text \<open>
  The shared pseudorandom source of the \<open>random\<close> module is a state \<open>'g\<close> with a
  function \<open>rnd\<close> giving the next raw number and the next state. \<open>random.choice(xs)\<close>
  reads one number and indexes \<open>xs\<close> with it, reduced below \<open>len(xs)\<close>. Every
  theorem quantifies over \<open>rnd\<close>, hence over every outcome of the draws.
\<close>

definition choice :: "('g \<Rightarrow> nat \<times> 'g) \<Rightarrow> 'g \<Rightarrow> 'a list \<Rightarrow> 'a \<times> 'g" where
  "choice rnd g xs = (case rnd g of (r, g') \<Rightarrow> (xs ! (r mod length xs), g'))"

definition bindE :: "error + 'a \<Rightarrow> ('a \<Rightarrow> error + 'b) \<Rightarrow> error + 'b" where
  "bindE m f = (case m of Inl e \<Rightarrow> Inl e | Inr x \<Rightarrow> f x)"

text \<open>
  A document value, as \<open>json.load\<close> produces it. A \<open>dict\<close> is an association list
  in insertion order: \<open>d[k] = v\<close> is \<open>AList.update\<close> (in place for a key already there,
  at the end for a new one), \<open>del d[k]\<close> is \<open>AList.delete\<close>, \<open>d.get(k, p)\<close> is
  \<open>dict_get\<close>. Numbers are integers; floating point numbers are not modelled.
\<close>

datatype json =
    JNull
  | JBool bool
  | JInt int
  | JStr string
  | JList "json list"
  | JDict "(string \<times> json) list"

definition dict_get :: "(string \<times> 'v) list \<Rightarrow> string \<Rightarrow> 'v \<Rightarrow> 'v" where
  "dict_get d k p = (case map_of d k of Some v \<Rightarrow> v | None \<Rightarrow> p)"

definition has_key :: "(string \<times> 'v) list \<Rightarrow> string \<Rightarrow> bool" where
  "has_key d k = (map_of d k \<noteq> None)"

definition dict_update :: "(string \<times> 'v) list \<Rightarrow> (string \<times> 'v) list \<Rightarrow> (string \<times> 'v) list" where
  "dict_update d other = foldl (\<lambda>acc (k, v). AList.update k v acc) d other"

text \<open>Truth value of a document value in a condition.\<close>

fun truthy :: "json \<Rightarrow> bool" where
  "truthy JNull = False"
| "truthy (JBool b) = b"
| "truthy (JInt n) = (n \<noteq> 0)"
| "truthy (JStr s) = (s \<noteq> [])"
| "truthy (JList l) = (l \<noteq> [])"
| "truthy (JDict d) = (d \<noteq> [])"

text \<open>\<open>xs[i]\<close>: a negative index counts from the end, an index out of range raises.\<close>

definition py_index :: "'a list \<Rightarrow> int \<Rightarrow> error + 'a" where
  "py_index xs i =
     (if 0 \<le> i \<and> i < int (length xs) then Inr (xs ! nat i)
      else if i < 0 \<and> - int (length xs) \<le> i then Inr (xs ! nat (int (length xs) + i))
      else Inl (IndexError ''list index out of range''))"

text \<open>\<open>xs.remove(x)\<close>: deletes the first occurrence, raises when there is none.\<close>

definition py_remove :: "'a \<Rightarrow> 'a list \<Rightarrow> error + 'a list" where
  "py_remove x xs =
     (if x \<in> set xs then Inr (remove1 x xs)
      else Inl (ValueError ''list.remove(x): x not in list''))"

text \<open>\<open>'%d' % n\<close> for a natural number.\<close>

function string_of_nat :: "nat \<Rightarrow> string" where
  "string_of_nat n =
     (if n < 10 then [''0123456789'' ! n]
      else string_of_nat (n div 10) @ [''0123456789'' ! (n mod 10)])"
  by pat_completeness auto
termination
  by (relation "measure id") auto

section \<open>The Record classes\<close>

text \<open>
  \<open>Record.update\<close> first replaces \<open>None\<close> by the empty dict and a list by
  \<open>{"item": list}\<close>, then walks the declared properties: a property \<open>k\<close> with default
  \<open>p\<close> is assigned \<open>src_dict.get(k, p)\<close> when \<open>update_all\<close> holds or \<open>k in src_dict\<close>.
  \<open>update_field\<close> is one step of that loop: \<open>Some v\<close> is the value to assign, \<open>None\<close>
  leaves the attribute as it is. On a source that is no dict, \<open>k in src_dict\<close> is the
  substring test of a string and a \<open>TypeError\<close> on a number, and \<open>.get\<close> is an
  \<open>AttributeError\<close>.
\<close>

definition normalize_src :: "json \<Rightarrow> json" where
  "normalize_src src_dict =
     (case src_dict of
        JNull \<Rightarrow> JDict []
      | JList l \<Rightarrow> JDict [(''item'', JList l)]
      | _ \<Rightarrow> src_dict)"

definition src_contains :: "json \<Rightarrow> string \<Rightarrow> error + bool" where
  "src_contains src_dict k =
     (case src_dict of
        JDict d \<Rightarrow> Inr (has_key d k)
      | JStr s \<Rightarrow> Inr (sublist k s)
      | JList l \<Rightarrow> Inr (JStr k \<in> set l)
      | _ \<Rightarrow> Inl (TypeError ''argument is not iterable''))"

definition src_get :: "json \<Rightarrow> string \<Rightarrow> json \<Rightarrow> error + json" where
  "src_get src_dict k p =
     (case src_dict of
        JDict d \<Rightarrow> Inr (dict_get d k p)
      | _ \<Rightarrow> Inl (AttributeError ''object has no attribute get''))"

definition update_field :: "bool \<Rightarrow> json \<Rightarrow> string \<Rightarrow> json \<Rightarrow> error + json option" where
  "update_field update_all src_dict k p =
     (if update_all then bindE (src_get src_dict k p) (\<lambda>v. Inr (Some v))
      else bindE (src_contains src_dict k) (\<lambda>b.
             if b then bindE (src_get src_dict k p) (\<lambda>v. Inr (Some v)) else Inr None))"

definition assigned :: "json option \<Rightarrow> 'a \<Rightarrow> (json \<Rightarrow> 'a) \<Rightarrow> 'a" where
  "assigned v cur f = (case v of Some x \<Rightarrow> f x | None \<Rightarrow> cur)"

text \<open>
  \<open>Record.to_json\<close> keeps the properties whose attribute differs from the default;
  \<open>emit\<close> is its contribution for one property.
\<close>

definition emit :: "string \<Rightarrow> json \<Rightarrow> json \<Rightarrow> (string \<times> json) list" where
  "emit k v d = (if v \<noteq> d then [(k, v)] else [])"

subsection \<open>DungeonRecord\<close>

record DungeonRecord =
  mq :: json

definition DungeonRecord_mapping :: "(string \<times> json) list" where
  "DungeonRecord_mapping =
     [(''random'', JNull), (''mq'', JBool True), (''vanilla'', JBool False)]"

definition DungeonRecord_update :: "DungeonRecord \<Rightarrow> json \<Rightarrow> bool \<Rightarrow> error + DungeonRecord" where
  "DungeonRecord_update self src_dict update_all =
     bindE (update_field update_all (normalize_src src_dict) ''mq'' JNull) (\<lambda>v.
       Inr (self\<lparr>mq := assigned v (mq self) id\<rparr>))"

definition DungeonRecord_init :: "json \<Rightarrow> error + DungeonRecord" where
  "DungeonRecord_init src_dict =
     (let self = \<lparr>mq = JNull\<rparr>;
          src_dict = (case src_dict of
                        JStr s \<Rightarrow> JDict [(''mq'', dict_get DungeonRecord_mapping s JNull)]
                      | _ \<Rightarrow> src_dict)
      in if src_dict = JNull then Inr self else DungeonRecord_update self src_dict True)"

definition DungeonRecord_to_json :: "DungeonRecord \<Rightarrow> json" where
  "DungeonRecord_to_json self =
     (if mq self = JNull then JStr ''random''
      else if truthy (mq self) then JStr ''mq'' else JStr ''vanilla'')"

subsection \<open>EmptyDungeonRecord\<close>

text \<open>The attribute \<open>empty\<close> is the field \<open>empty_flag\<close>.\<close>

record EmptyDungeonRecord =
  empty_flag :: json

definition EmptyDungeonRecord_update ::
  "EmptyDungeonRecord \<Rightarrow> json \<Rightarrow> bool \<Rightarrow> error + EmptyDungeonRecord" where
  "EmptyDungeonRecord_update self src_dict update_all =
     bindE (update_field update_all (normalize_src src_dict) ''empty'' JNull) (\<lambda>v.
       Inr (self\<lparr>empty_flag := assigned v (empty_flag self) id\<rparr>))"

definition EmptyDungeonRecord_init :: "json \<Rightarrow> error + EmptyDungeonRecord" where
  "EmptyDungeonRecord_init src_dict =
     (let self = \<lparr>empty_flag = JNull\<rparr>;
          src_dict = (if src_dict = JStr ''random'' then JDict [(''empty'', JNull)]
                      else (case src_dict of
                              JBool b \<Rightarrow> JDict [(''empty'', JBool b)]
                            | _ \<Rightarrow> src_dict))
      in if src_dict = JNull then Inr self else EmptyDungeonRecord_update self src_dict True)"

definition EmptyDungeonRecord_to_json :: "EmptyDungeonRecord \<Rightarrow> json" where
  "EmptyDungeonRecord_to_json self = empty_flag self"

subsection \<open>GossipRecord\<close>

text \<open>
  The attribute \<open>text\<close> is the field \<open>gtext\<close>. The constructor does not set it before
  the update, so it is \<open>None\<close> (unset) until a document is loaded, and reading it then
  is an \<open>AttributeError\<close>. \<open>CollapseList\<close> and \<open>CollapseDict\<close> are a list and a dict
  with another layout when dumped.
\<close>

record GossipRecord =
  gtext :: "json option"
  colors :: json
  hinted_locations :: json
  hinted_items :: json

definition GossipRecord_update :: "GossipRecord \<Rightarrow> json \<Rightarrow> bool \<Rightarrow> error + GossipRecord" where
  "GossipRecord_update self src_dict update_all =
     (let src = normalize_src src_dict in
      bindE (update_field update_all src ''text'' JNull) (\<lambda>v1.
      bindE (update_field update_all src ''colors'' JNull) (\<lambda>v2.
      bindE (update_field update_all src ''hinted_locations'' JNull) (\<lambda>v3.
      bindE (update_field update_all src ''hinted_items'' JNull) (\<lambda>v4.
        Inr \<lparr>gtext = assigned v1 (gtext self) Some,
             colors = assigned v2 (colors self) id,
             hinted_locations = assigned v3 (hinted_locations self) id,
             hinted_items = assigned v4 (hinted_items self) id\<rparr>)))))"

definition GossipRecord_init :: "json \<Rightarrow> error + GossipRecord" where
  "GossipRecord_init src_dict =
     (let self = \<lparr>gtext = None, colors = JNull, hinted_locations = JNull, hinted_items = JNull\<rparr>
      in if src_dict = JNull then Inr self else GossipRecord_update self src_dict True)"

definition GossipRecord_to_json :: "GossipRecord \<Rightarrow> error + json" where
  "GossipRecord_to_json self =
     (case gtext self of
        None \<Rightarrow> Inl (AttributeError ''GossipRecord object has no attribute text'')
      | Some t \<Rightarrow>
          Inr (JDict (emit ''text'' t JNull @ emit ''colors'' (colors self) JNull
                      @ emit ''hinted_locations'' (hinted_locations self) JNull
                      @ emit ''hinted_items'' (hinted_items self) JNull)))"

subsection \<open>ItemPoolRecord\<close>

text \<open>
  The attributes \<open>type\<close> and \<open>count\<close> are the fields \<open>ptype\<close> and \<open>pcount\<close>. Every
  way to build or change an ItemPoolRecord ends in the two checks of its \<open>update\<close>,
  which only a string \<open>type\<close> and an integer \<open>count\<close> pass (\<open>count < 0\<close> is a
  \<open>TypeError\<close> on any other value), so the fields carry these types. A \<open>bool\<close> is
  an \<open>int\<close> in Python and is read as 0 or 1.
\<close>

record ItemPoolRecord =
  ptype :: string
  pcount :: int

definition count_of_json :: "json \<Rightarrow> error + int" where
  "count_of_json c =
     (case c of
        JInt n \<Rightarrow> Inr n
      | JBool b \<Rightarrow> Inr (if b then 1 else 0)
      | _ \<Rightarrow> Inl (TypeError ''< not supported between these instances''))"

definition ItemPoolRecord_update ::
  "ItemPoolRecord \<Rightarrow> json \<Rightarrow> bool \<Rightarrow> error + ItemPoolRecord" where
  "ItemPoolRecord_update self src_dict update_all =
     (let src = normalize_src src_dict in
      bindE (update_field update_all src ''type'' (JStr ''set'')) (\<lambda>v1.
      bindE (update_field update_all src ''count'' (JInt 1)) (\<lambda>v2.
      bindE (count_of_json (assigned v2 (JInt (pcount self)) id)) (\<lambda>n.
        if n < 0 then Inl (ValueError ''Count cannot be negative in a ItemPoolRecord.'')
        else (case assigned v1 (JStr (ptype self)) id of
                JStr t \<Rightarrow>
                  if t \<notin> set [''add'', ''remove'', ''set'']
                  then Inl (ValueError ''Type must be 'add', 'remove', or 'set' in a ItemPoolRecord.'')
                  else Inr \<lparr>ptype = t, pcount = n\<rparr>
              | _ \<Rightarrow> Inl (ValueError ''Type must be 'add', 'remove', or 'set' in a ItemPoolRecord.''))))))"

definition ItemPoolRecord_init :: "json \<Rightarrow> error + ItemPoolRecord" where
  "ItemPoolRecord_init src_dict =
     (let self = \<lparr>ptype = ''set'', pcount = 1\<rparr>;
          src_dict = (case src_dict of
                        JInt n \<Rightarrow> JDict [(''count'', JInt n)]
                      | JBool b \<Rightarrow> JDict [(''count'', JBool b)]
                      | _ \<Rightarrow> src_dict)
      in if src_dict = JNull then Inr self else ItemPoolRecord_update self src_dict True)"

definition ItemPoolRecord_to_json :: "ItemPoolRecord \<Rightarrow> json" where
  "ItemPoolRecord_to_json self =
     (if ptype self = ''set'' then JInt (pcount self)
      else JDict (emit ''type'' (JStr (ptype self)) (JStr ''set'')
                  @ emit ''count'' (JInt (pcount self)) (JInt 1)))"

subsection \<open>LocationRecord\<close>

text \<open>
  \<open>price\<close> and \<open>model\<close> are not set by the constructor before the update (\<open>None\<close> is
  the unset attribute). \<open>str_of\<close> is Python's \<open>str\<close> on a value that is not a string.
\<close>

record LocationRecord =
  item :: json
  player :: json
  price :: "json option"
  model :: "json option"

definition py_str :: "(json \<Rightarrow> string) \<Rightarrow> json \<Rightarrow> string" where
  "py_str str_of v = (case v of JStr s \<Rightarrow> s | _ \<Rightarrow> str_of v)"

definition LocationRecord_update :: "LocationRecord \<Rightarrow> json \<Rightarrow> bool \<Rightarrow> error + LocationRecord" where
  "LocationRecord_update self src_dict update_all =
     (let src = normalize_src src_dict in
      bindE (update_field update_all src ''item'' JNull) (\<lambda>v1.
      bindE (update_field update_all src ''player'' JNull) (\<lambda>v2.
      bindE (update_field update_all src ''price'' JNull) (\<lambda>v3.
      bindE (update_field update_all src ''model'' JNull) (\<lambda>v4.
        Inr \<lparr>item = assigned v1 (item self) id,
             player = assigned v2 (player self) id,
             price = assigned v3 (price self) Some,
             model = assigned v4 (model self) Some\<rparr>)))))"

definition LocationRecord_init :: "json \<Rightarrow> error + LocationRecord" where
  "LocationRecord_init src_dict =
     (let self = \<lparr>item = JNull, player = JNull, price = None, model = None\<rparr>;
          src_dict = (case src_dict of JStr s \<Rightarrow> JDict [(''item'', JStr s)] | _ \<Rightarrow> src_dict)
      in if src_dict = JNull then Inr self else LocationRecord_update self src_dict True)"

definition LocationRecord_to_json :: "(json \<Rightarrow> string) \<Rightarrow> LocationRecord \<Rightarrow> error + json" where
  "LocationRecord_to_json str_of self =
     (case (price self, model self) of
        (Some pr, Some mo) \<Rightarrow>
          (let self_dict = emit ''item'' (item self) JNull @ emit ''player'' (player self) JNull
                           @ emit ''price'' pr JNull @ emit ''model'' mo JNull
           in if map fst self_dict = [''item''] then Inr (JStr (py_str str_of (item self)))
              else Inr (JDict self_dict))
      | _ \<Rightarrow> Inl (AttributeError ''LocationRecord object has no such attribute''))"

subsection \<open>EntranceRecord\<close>

record EntranceRecord =
  region :: json
  origin :: json

definition EntranceRecord_update :: "EntranceRecord \<Rightarrow> json \<Rightarrow> bool \<Rightarrow> error + EntranceRecord" where
  "EntranceRecord_update self src_dict update_all =
     (let src = normalize_src src_dict in
      bindE (update_field update_all src ''region'' JNull) (\<lambda>v1.
      bindE (update_field update_all src ''origin'' JNull) (\<lambda>v2.
        Inr \<lparr>region = assigned v1 (region self) id,
             origin = assigned v2 (origin self) id\<rparr>)))"

definition EntranceRecord_init :: "json \<Rightarrow> error + EntranceRecord" where
  "EntranceRecord_init src_dict =
     (let self = \<lparr>region = JNull, origin = JNull\<rparr>;
          src_dict = (case src_dict of JStr s \<Rightarrow> JDict [(''region'', JStr s)] | _ \<Rightarrow> src_dict)
      in bindE (src_contains src_dict ''from'') (\<lambda>has_from.
         bindE (if has_from
                then (case src_dict of
                        JDict d \<Rightarrow>
                          Inr (JDict (AList.delete ''from''
                                 (AList.update ''origin'' (dict_get d ''from'' JNull) d)))
                      | _ \<Rightarrow> Inl (TypeError ''list indices must be integers''))
                else Inr src_dict) (\<lambda>src_dict.
         EntranceRecord_update self src_dict True)))"

definition EntranceRecord_to_json :: "(json \<Rightarrow> string) \<Rightarrow> EntranceRecord \<Rightarrow> error + json" where
  "EntranceRecord_to_json str_of self =
     (let self_dict = emit ''region'' (region self) JNull @ emit ''origin'' (origin self) JNull
      in if map fst self_dict = [''region''] then Inr (JStr (py_str str_of (region self)))
         else (case map_of self_dict ''origin'' of
                 None \<Rightarrow> Inl (KeyError ''origin'')
               | Some v \<Rightarrow>
                   Inr (JDict (AList.delete ''origin'' (AList.update ''from'' v self_dict)))))"

subsection \<open>StarterRecord\<close>

text \<open>
  The starting item functions add to \<open>count\<close> and index with it; the field is an
  integer, as declared. A document whose count is no integer is outside this type
  and is refused when it is loaded.
\<close>

record StarterRecord =
  count :: int

definition StarterRecord_update :: "StarterRecord \<Rightarrow> json \<Rightarrow> bool \<Rightarrow> error + StarterRecord" where
  "StarterRecord_update self src_dict update_all =
     bindE (update_field update_all (normalize_src src_dict) ''count'' (JInt 1)) (\<lambda>v.
     bindE (count_of_json (assigned v (JInt (count self)) id)) (\<lambda>n.
       Inr \<lparr>count = n\<rparr>))"

definition StarterRecord_init :: "json \<Rightarrow> error + StarterRecord" where
  "StarterRecord_init src_dict =
     (let self = \<lparr>count = 1\<rparr>;
          src_dict = (case src_dict of
                        JInt n \<Rightarrow> JDict [(''count'', JInt n)]
                      | JBool b \<Rightarrow> JDict [(''count'', JBool b)]
                      | _ \<Rightarrow> src_dict)
      in if src_dict = JNull then Inr self else StarterRecord_update self src_dict True)"

definition StarterRecord_to_json :: "StarterRecord \<Rightarrow> json" where
  "StarterRecord_to_json self = JInt (count self)"

subsection \<open>TrialRecord\<close>

record TrialRecord =
  active :: json

definition TrialRecord_mapping :: "(string \<times> json) list" where
  "TrialRecord_mapping =
     [(''random'', JNull), (''active'', JBool True), (''inactive'', JBool False)]"

definition TrialRecord_update :: "TrialRecord \<Rightarrow> json \<Rightarrow> bool \<Rightarrow> error + TrialRecord" where
  "TrialRecord_update self src_dict update_all =
     bindE (update_field update_all (normalize_src src_dict) ''active'' JNull) (\<lambda>v.
       Inr (self\<lparr>active := assigned v (active self) id\<rparr>))"

definition TrialRecord_init :: "json \<Rightarrow> error + TrialRecord" where
  "TrialRecord_init src_dict =
     (let self = \<lparr>active = JNull\<rparr>;
          src_dict = (case src_dict of
                        JStr s \<Rightarrow> JDict [(''active'', dict_get TrialRecord_mapping s JNull)]
                      | _ \<Rightarrow> src_dict)
      in if src_dict = JNull then Inr self else TrialRecord_update self src_dict True)"

definition TrialRecord_to_json :: "TrialRecord \<Rightarrow> json" where
  "TrialRecord_to_json self =
     (if active self = JNull then JStr ''random''
      else if truthy (active self) then JStr ''active'' else JStr ''inactive'')"

subsection \<open>SongRecord\<close>

text \<open>The attribute \<open>notes\<close> is the field \<open>song_notes\<close>.\<close>

record SongRecord =
  song_notes :: json

definition SongRecord_update :: "SongRecord \<Rightarrow> json \<Rightarrow> bool \<Rightarrow> error + SongRecord" where
  "SongRecord_update self src_dict update_all =
     bindE (update_field update_all (normalize_src src_dict) ''notes'' JNull) (\<lambda>v.
       Inr (self\<lparr>song_notes := assigned v (song_notes self) id\<rparr>))"

definition SongRecord_init :: "json \<Rightarrow> error + SongRecord" where
  "SongRecord_init src_dict =
     (let self = \<lparr>song_notes = JNull\<rparr>;
          src_dict = (case src_dict of
                        JNull \<Rightarrow> JDict [(''notes'', JNull)]
                      | JStr s \<Rightarrow> JDict [(''notes'', JStr s)]
                      | _ \<Rightarrow> src_dict)
      in if src_dict = JNull then Inr self else SongRecord_update self src_dict True)"

definition SongRecord_to_json :: "SongRecord \<Rightarrow> json" where
  "SongRecord_to_json self = song_notes self"

subsection \<open>Well-formed records and documents\<close>

text \<open>
  The values the declared attribute types allow, and the two shapes of a record whose
  short document form cannot be told apart from another record's.
\<close>

definition is_str :: "json \<Rightarrow> bool" where
  "is_str v = (case v of JStr s \<Rightarrow> True | _ \<Rightarrow> False)"

definition is_null_or_bool :: "json \<Rightarrow> bool" where
  "is_null_or_bool v = (case v of JNull \<Rightarrow> True | JBool b \<Rightarrow> True | _ \<Rightarrow> False)"

definition is_null_or_str :: "json \<Rightarrow> bool" where
  "is_null_or_str v = (case v of JNull \<Rightarrow> True | JStr s \<Rightarrow> True | _ \<Rightarrow> False)"

definition valid_ItemPoolRecord :: "ItemPoolRecord \<Rightarrow> bool" where
  "valid_ItemPoolRecord r =
     (ptype r \<in> set [''add'', ''remove'', ''set''] \<and> 0 \<le> pcount r)"

definition roundtrips_LocationRecord :: "LocationRecord \<Rightarrow> bool" where
  "roundtrips_LocationRecord r =
     (price r \<noteq> None \<and> model r \<noteq> None \<and>
      (item r = JNull \<or> is_str (item r) \<or> player r \<noteq> JNull
         \<or> price r \<noteq> Some JNull \<or> model r \<noteq> Some JNull))"

definition roundtrips_EntranceRecord :: "EntranceRecord \<Rightarrow> bool" where
  "roundtrips_EntranceRecord r = (origin r \<noteq> JNull \<or> is_str (region r))"

text \<open>A document that is empty or left out: null, or an empty dict, list or string.\<close>

definition empty_representation :: "json \<Rightarrow> bool" where
  "empty_representation v =
     (case v of
        JNull \<Rightarrow> True
      | JDict d \<Rightarrow> d = []
      | JList l \<Rightarrow> l = []
      | JStr s \<Rightarrow> s = []
      | _ \<Rightarrow> False)"

section \<open>Settings and starting items\<close>

text \<open>
  The fields of the \<open>Settings\<close> object that Plandomizer.py reads.
  \<open>starting_items\<close> is the normalized dict that \<open>Distribution.reset\<close> stores: a key
  of the form \<open>World N\<close> holds a dict of StarterRecords for that world, any other key
  holds a StarterRecord for the item of that name.
\<close>

datatype starting =
    Starter StarterRecord
  | PerWorld "(string \<times> StarterRecord) list"

record Settings =
  starting_items_setting :: "(string \<times> starting) list"
  shuffle_song_items :: string
  triforce_hunt :: bool
  shuffle_ganon_bosskey :: string
  lacs_condition :: string
  bridge :: string
  tokensanity :: string
  shuffle_smallkeys :: string
  shuffle_hideoutkeys :: string
  shuffle_tcgkeys :: string
  shuffle_bosskeys :: string
  shuffle_silver_rupees :: string
  key_rings :: "string list"
  blue_fire_arrows :: bool
  shuffle_child_trade :: "string list"
  item_pool_value :: string
  adult_trade_shuffle :: bool
  adult_trade_start :: "string list"
  disabled_locations :: "string list"
  enable_distribution_file :: bool

definition dict_lookup :: "(string \<times> 'v) list \<Rightarrow> string \<Rightarrow> error + 'v" where
  "dict_lookup d k = (case map_of d k of Some v \<Rightarrow> Inr v | None \<Rightarrow> Inl (KeyError k))"

definition world_names :: "nat \<Rightarrow> string list" where
  "world_names n = map (\<lambda>i. ''World '' @ string_of_nat (i + 1)) [0..<n]"

text \<open>
  The property \<open>WorldDistribution.starting_items\<close> of the world with index \<open>i\<close>
  (\<open>self.id\<close>) among \<open>n\<close> world distributions, for the settings \<open>cfg\<close>: the entries of this world's dict first, then
  \<open>data.update\<close> with every entry whose key is no world name. Updating with a value
  that is no dict is a \<open>TypeError\<close>.
\<close>

definition starting_items ::
  "Settings \<Rightarrow> nat \<Rightarrow> nat \<Rightarrow> error + (string \<times> starting) list" where
  "starting_items cfg n i =
     (let names = world_names n;
          setting = starting_items_setting cfg in
      if \<not> i < length names then Inl (IndexError ''list index out of range'')
      else
        bindE (if has_key setting (names ! i)
               then (case dict_get setting (names ! i) (PerWorld []) of
                       PerWorld d \<Rightarrow> Inr (dict_update [] (map (\<lambda>(k, r). (k, Starter r)) d))
                     | Starter r \<Rightarrow> Inl (TypeError ''StarterRecord object is not iterable''))
               else Inr []) (\<lambda>data.
        Inr (dict_update data (filter (\<lambda>(item_name, count). item_name \<notin> set names) setting))))"

definition get_starting_item :: "Settings \<Rightarrow> nat \<Rightarrow> nat \<Rightarrow> string \<Rightarrow> error + int" where
  "get_starting_item cfg n i item_name =
     bindE (starting_items cfg n i) (\<lambda>items.
       if has_key items item_name
       then (case dict_get items item_name (PerWorld []) of
               Starter r \<Rightarrow> Inr (count r)
             | PerWorld d \<Rightarrow> Inl (AttributeError ''dict object has no attribute count''))
       else Inr 0)"

subsection \<open>Ammo for starting equipment\<close>

text \<open>
  An entry of \<open>StartingItems.inventory\<close>: the item it gives and, for equipment with
  ammo, the dict from the ammo item to its count curve \<open>qty\<close>, indexed by the number
  of copies of the equipment minus one. The table itself is a parameter.
\<close>

text \<open>The attributes \<open>item_name\<close> and \<open>ammo\<close> are the fields \<open>entry_item_name\<close> and \<open>entry_ammo\<close>.\<close>

record Entry =
  entry_item_name :: string
  entry_ammo :: "(string \<times> int list) list option"

definition has_ammo :: "Entry \<Rightarrow> bool" where
  "has_ammo entry = (case entry_ammo entry of None \<Rightarrow> False | Some a \<Rightarrow> a \<noteq> [])"

definition ammo_items :: "Entry \<Rightarrow> (string \<times> int list) list" where
  "ammo_items entry = (case entry_ammo entry of None \<Rightarrow> [] | Some a \<Rightarrow> a)"

text \<open>The inner loop of \<open>add_starting_ammo\<close>: ammo already present is kept.\<close>

fun add_missing_ammo ::
  "string \<Rightarrow> (string \<times> int list) list \<Rightarrow> (string \<times> StarterRecord) list
     \<Rightarrow> error + (string \<times> StarterRecord) list" where
  "add_missing_ammo name [] starting = Inr starting"
| "add_missing_ammo name ((ammo_name, qty) # rest) starting =
     (if \<not> has_key starting ammo_name
      then (let starting = AList.update ammo_name \<lparr>count = 0\<rparr> starting in
            bindE (dict_lookup starting name) (\<lambda>r.
            bindE (py_index qty (count r - 1)) (\<lambda>c.
              add_missing_ammo name rest (AList.update ammo_name \<lparr>count = c\<rparr> starting))))
      else add_missing_ammo name rest starting)"

fun add_starting_ammo ::
  "Entry list \<Rightarrow> (string \<times> StarterRecord) list \<Rightarrow> error + (string \<times> StarterRecord) list" where
  "add_starting_ammo [] starting = Inr starting"
| "add_starting_ammo (entry # inventory) starting =
     (if has_key starting (entry_item_name entry) \<and> has_ammo entry
      then bindE (add_missing_ammo (entry_item_name entry) (ammo_items entry) starting)
             (add_starting_ammo inventory)
      else add_starting_ammo inventory starting)"

text \<open>The inner loop of \<open>add_starting_item_with_ammo\<close>: the ammo count is overwritten.\<close>

fun set_ammo ::
  "string \<Rightarrow> (string \<times> int list) list \<Rightarrow> (string \<times> StarterRecord) list
     \<Rightarrow> error + (string \<times> StarterRecord) list" where
  "set_ammo name [] starting = Inr starting"
| "set_ammo name ((ammo_name, qty) # rest) starting =
     (let starting = (if \<not> has_key starting ammo_name
                      then AList.update ammo_name \<lparr>count = 0\<rparr> starting else starting) in
      bindE (dict_lookup starting name) (\<lambda>r.
      bindE (py_index qty (count r - 1)) (\<lambda>c.
        set_ammo name rest (AList.update ammo_name \<lparr>count = c\<rparr> starting))))"

fun set_ammo_of_first ::
  "Entry list \<Rightarrow> string \<Rightarrow> (string \<times> StarterRecord) list
     \<Rightarrow> error + (string \<times> StarterRecord) list" where
  "set_ammo_of_first [] name starting = Inr starting"
| "set_ammo_of_first (entry # inventory) name starting =
     (if entry_item_name entry = name \<and> has_ammo entry
      then set_ammo name (ammo_items entry) starting
      else set_ammo_of_first inventory name starting)"

definition add_starting_item_with_ammo ::
  "Entry list \<Rightarrow> (string \<times> StarterRecord) list \<Rightarrow> string \<Rightarrow> int
     \<Rightarrow> error + (string \<times> StarterRecord) list" where
  "add_starting_item_with_ammo inventory starting name n =
     (let starting = (if \<not> has_key starting name
                      then AList.update name \<lparr>count = 0\<rparr> starting else starting) in
      bindE (dict_lookup starting name) (\<lambda>r.
        set_ammo_of_first inventory name
          (AList.update name \<lparr>count = count r + n\<rparr> starting)))"

text \<open>A plain configuration for the examples: one without starting items.\<close>

definition plain_settings :: Settings where
  "plain_settings =
     \<lparr>starting_items_setting = [], shuffle_song_items = ''song'', triforce_hunt = False,
      shuffle_ganon_bosskey = ''dungeon'', lacs_condition = ''vanilla'', bridge = ''medallions'',
      tokensanity = ''off'', shuffle_smallkeys = ''dungeon'', shuffle_hideoutkeys = ''vanilla'',
      shuffle_tcgkeys = ''vanilla'', shuffle_bosskeys = ''dungeon'',
      shuffle_silver_rupees = ''vanilla'', key_rings = [], blue_fire_arrows = False,
      shuffle_child_trade = [], item_pool_value = ''balanced'', adult_trade_shuffle = False,
      adult_trade_start = [], disabled_locations = [], enable_distribution_file = True\<rparr>"

text \<open>Both a global and a per-player entry for the Bow, in a single world.\<close>

definition bow_settings :: Settings where
  "bow_settings = plain_settings\<lparr>starting_items_setting :=
     [(''World 1'', PerWorld [(''Bow'', \<lparr>count = 2\<rparr>), (''Hookshot'', \<lparr>count = 1\<rparr>)]),
      (''Bow'', Starter \<lparr>count = 1\<rparr>)]\<rparr>"

text \<open>An inventory table with one entry: the Bow, whose arrows follow the curve 30, 40, 50.\<close>

definition bow_inventory :: "Entry list" where
  "bow_inventory = [\<lparr>entry_item_name = ''Bow'', entry_ammo = Some [(''Arrows'', [30, 40, 50])]\<rparr>]"

section \<open>WorldDistribution: pattern matching\<close>

text \<open>
  What a WorldDistribution reads and never changes: the settings and search groups of
  its Distribution, its own index, and the tables and helpers of the other modules,
  which are parameters here: \<open>item_groups\<close> of ItemPool.py, \<open>ItemInfo.items\<close> (a name
  with the type of the item), \<open>is_item\<close> and the names \<open>ItemIterator\<close> enumerates, the
  junk item selector \<open>get_junk_item\<close>, \<open>build_close_match\<close> and the raw random number
  source of the \<open>random\<close> module.
\<close>

record 'g Env =
  settings :: Settings
  search_groups :: "(string \<times> string list) list"
  self_id :: nat
  n_worlds :: nat
  item_groups :: "(string \<times> string list) list"
  item_info :: "(string \<times> string) list"
  is_item :: "string \<Rightarrow> bool"
  item_iterator :: "string list"
  get_junk_item ::
    "int \<Rightarrow> string list \<Rightarrow> (string \<times> ItemPoolRecord) list \<Rightarrow> 'g \<Rightarrow> (error + string list) \<times> 'g"
  build_close_match :: "string \<Rightarrow> string \<Rightarrow> string"
  rand :: "'g \<Rightarrow> nat \<times> 'g"

text \<open>
  The attributes of a WorldDistribution that its methods change, together with the
  state of the random source.
\<close>

record 'g WorldDistribution =
  base_pool :: "string list"
  major_group :: "string list"
  item_pool :: "(string \<times> ItemPoolRecord) list"
  song_as_items :: bool
  rng :: 'g

definition key_name :: "string list \<Rightarrow> string \<Rightarrow> string" where
  "key_name rings dungeon =
     (if dungeon \<in> set rings then ''Small Key Ring ('' @ dungeon @ '')''
      else ''Small Key ('' @ dungeon @ '')'')"

definition items_of_type :: "(string \<times> string) list \<Rightarrow> (string \<Rightarrow> string \<Rightarrow> bool) \<Rightarrow> string list" where
  "items_of_type info P = map fst (filter (\<lambda>(name, type). P name type) info)"

text \<open>
  The items that the settings add to the major group, after those of the base pool.
\<close>

definition major_extras :: "'g Env \<Rightarrow> string list" where
  "major_extras C =
     (let s = settings C;
          major_tokens = ((shuffle_ganon_bosskey s = ''on_lacs'' \<and> lacs_condition s = ''tokens'')
                          \<or> shuffle_ganon_bosskey s = ''tokens'' \<or> bridge s = ''tokens'');
          major_hearts = ((shuffle_ganon_bosskey s = ''on_lacs'' \<and> lacs_condition s = ''hearts'')
                          \<or> shuffle_ganon_bosskey s = ''hearts'' \<or> bridge s = ''hearts'')
      in (if triforce_hunt s then [''Triforce Piece''] else [])
       @ (if tokensanity s = ''all'' \<and> major_tokens then [''Gold Skulltula Token''] else [])
       @ (if major_hearts
          then [''Heart Container'', ''Piece of Heart'', ''Piece of Heart (Treasure Chest Game)'']
          else [])
       @ (if shuffle_smallkeys s = ''keysanity''
          then map (key_name (key_rings s))
                 [''Bottom of the Well'', ''Forest Temple'', ''Fire Temple'', ''Water Temple'',
                  ''Shadow Temple'', ''Spirit Temple'', ''Gerudo Training Ground'',
                  ''Ganons Castle'']
          else [])
       @ (if shuffle_hideoutkeys s = ''keysanity''
          then [key_name (key_rings s) ''Thieves Hideout''] else [])
       @ (if shuffle_tcgkeys s = ''keysanity''
          then [key_name (key_rings s) ''Treasure Chest Game''] else [])
       @ (if shuffle_bosskeys s = ''keysanity''
          then items_of_type (item_info C) (\<lambda>name type. type = ''BossKey'' \<and> name \<noteq> ''Boss Key'')
          else [])
       @ (if shuffle_ganon_bosskey s = ''keysanity''
          then items_of_type (item_info C) (\<lambda>name type. type = ''GanonBossKey'') else [])
       @ (if shuffle_silver_rupees s = ''anywhere''
          then items_of_type (item_info C) (\<lambda>name type. type = ''SilverRupee'') else []))"

text \<open>
  The branch of \<open>pattern_matcher\<close> that fills \<open>self.major_group\<close>. The list
  comprehension over the songs reads \<open>item_groups['Song']\<close> once for each element, so
  a missing group is a \<open>KeyError\<close> only when there is an element; \<open>major_group\<close> is
  then already assigned.
\<close>

definition compute_major_group ::
  "'g Env \<Rightarrow> string list \<Rightarrow> 'g WorldDistribution \<Rightarrow> (error + unit) \<times> 'g WorldDistribution" where
  "compute_major_group C grp st =
     (let in_pool = filter (\<lambda>item. item \<in> set (base_pool st)) grp in
      if shuffle_song_items (settings C) \<noteq> ''any'' \<and> in_pool \<noteq> []
           \<and> \<not> has_key (item_groups C) ''Song''
      then (Inl (KeyError ''Song''), st\<lparr>major_group := in_pool\<rparr>)
      else
        (let no_songs = (if shuffle_song_items (settings C) \<noteq> ''any''
                         then filter (\<lambda>x. x \<notin> set (dict_get (item_groups C) ''Song'' [])) in_pool
                         else in_pool)
         in (Inr (), st\<lparr>major_group := no_songs @ major_extras C\<rparr>)))"

text \<open>
  \<open>pattern_matcher\<close> on a string. The result is the compiled predicate, or the
  \<open>KeyError\<close> of a group that does not exist; the state changes only when the major
  group is computed.
\<close>

definition pattern_matcher_str ::
  "'g Env \<Rightarrow> string \<Rightarrow> 'g WorldDistribution
     \<Rightarrow> (error + (string \<Rightarrow> bool)) \<times> 'g WorldDistribution" where
  "pattern_matcher_str C pattern st =
     (let invert = prefix ''!'' pattern;
          pattern = (if invert then drop 1 pattern else pattern)
      in if prefix ''#'' pattern then
           (case map_of (search_groups C) (drop 1 pattern) of
              None \<Rightarrow> (Inl (KeyError (drop 1 pattern)), st)
            | Some grp \<Rightarrow>
                if pattern = ''#MajorItem'' then
                  (case (if major_group st = [] then compute_major_group C grp st
                         else (Inr (), st)) of
                     (Inl e, st') \<Rightarrow> (Inl e, st')
                   | (Inr u, st') \<Rightarrow>
                       (Inr (\<lambda>s. invert \<noteq> (s \<in> set (major_group st'))), st'))
                else (Inr (\<lambda>s. invert \<noteq> (s \<in> set grp)), st))
         else
           (let wildcard_begin = prefix ''*'' pattern;
                pattern = (if wildcard_begin then drop 1 pattern else pattern);
                wildcard_end = suffix ''*'' pattern
            in if wildcard_end then
                 (let pattern = butlast pattern
                  in if wildcard_begin then (Inr (\<lambda>s. invert \<noteq> sublist pattern s), st)
                     else (Inr (\<lambda>s. invert \<noteq> prefix pattern s), st))
               else
                 (if wildcard_begin then (Inr (\<lambda>s. invert \<noteq> suffix pattern s), st)
                  else (Inr (\<lambda>s. invert \<noteq> (s = pattern)), st))))"

text \<open>
  A pattern is a string or a list of strings. For a list, each element is compiled in
  turn, and \<open>reduce\<close> folds the compiled predicates with \<open>or\<close>, starting from the
  predicate that is always false.
\<close>

datatype pattern = Str string | Lst "string list"

fun pattern_matcher_list ::
  "'g Env \<Rightarrow> string list \<Rightarrow> 'g WorldDistribution
     \<Rightarrow> (error + (string \<Rightarrow> bool) list) \<times> 'g WorldDistribution" where
  "pattern_matcher_list C [] st = (Inr [], st)"
| "pattern_matcher_list C (pattern_item # rest) st =
     (case pattern_matcher_str C pattern_item st of
        (Inl e, st') \<Rightarrow> (Inl e, st')
      | (Inr m, st') \<Rightarrow>
          (case pattern_matcher_list C rest st' of
             (Inl e, st'') \<Rightarrow> (Inl e, st'')
           | (Inr ms, st'') \<Rightarrow> (Inr (m # ms), st'')))"

definition pattern_matcher ::
  "'g Env \<Rightarrow> pattern \<Rightarrow> 'g WorldDistribution
     \<Rightarrow> (error + (string \<Rightarrow> bool)) \<times> 'g WorldDistribution" where
  "pattern_matcher C pattern st =
     (case pattern of
        Str s \<Rightarrow> pattern_matcher_str C s st
      | Lst l \<Rightarrow>
          (case pattern_matcher_list C l st of
             (Inl e, st') \<Rightarrow> (Inl e, st')
           | (Inr pattern_list, st') \<Rightarrow>
               (Inr (foldl (\<lambda>acc sub_matcher. (\<lambda>item. sub_matcher item \<or> acc item))
                       (\<lambda>_. False) pattern_list), st')))"

definition is_pattern :: "string \<Rightarrow> bool" where
  "is_pattern pattern =
     (prefix ''!'' pattern \<or> prefix ''*'' pattern \<or> prefix ''#'' pattern \<or> suffix ''*'' pattern)"

definition is_output_only :: "string \<Rightarrow> bool" where
  "is_output_only pattern = prefix '':'' pattern"

subsection \<open>The pattern grammar, in the words of the specification\<close>

text \<open>
  A leading \<open>!\<close> inverts the result. For the rest of the pattern: a leading \<open>*\<close> is a
  suffix match, a trailing \<open>*\<close> a prefix match, both a substring match, neither an
  exact match.
\<close>

definition wildcard_matches :: "string \<Rightarrow> string \<Rightarrow> bool" where
  "wildcard_matches body s =
     (if prefix ''*'' body \<and> suffix ''*'' body then sublist (butlast (tl body)) s
      else if prefix ''*'' body then suffix (tl body) s
      else if suffix ''*'' body then prefix (butlast body) s
      else s = body)"

definition pattern_body :: "string \<Rightarrow> string" where
  "pattern_body pattern = (if prefix ''!'' pattern then tl pattern else pattern)"

definition spec_matches :: "string \<Rightarrow> string \<Rightarrow> bool" where
  "spec_matches pattern s = (prefix ''!'' pattern \<noteq> wildcard_matches (pattern_body pattern) s)"

text \<open>The predicate compiled for one element of a list pattern, false where compiling fails.\<close>

definition matcher_of :: "'g Env \<Rightarrow> 'g WorldDistribution \<Rightarrow> string \<Rightarrow> string \<Rightarrow> bool" where
  "matcher_of C st pattern s =
     (case fst (pattern_matcher_str C pattern st) of Inl e \<Rightarrow> False | Inr m \<Rightarrow> m s)"

text \<open>
  The states reached from \<open>st\<close> by compiling patterns: \<open>st\<close> itself, or \<open>st\<close> with its
  major group computed. Used to relate the predicates of the elements of a list.
\<close>

definition settled :: "'g Env \<Rightarrow> 'g WorldDistribution \<Rightarrow> 'g WorldDistribution \<Rightarrow> bool" where
  "settled C st st' \<longleftrightarrow>
     st' = st \<or>
     (major_group st = [] \<and>
      (\<exists>g. map_of (search_groups C) ''MajorItem'' = Some g \<and>
           compute_major_group C g st = (Inr (), st')))"

subsection \<open>A small world for the examples\<close>

text \<open>
  A few groups and items, a junk selector that returns as many Recovery Hearts as it
  is asked for, and a random source that counts up.
\<close>

definition plain_groups :: "(string \<times> string list) list" where
  "plain_groups =
     [(''Junk'', [''Recovery Heart'', ''Rupees (5)'']),
      (''Bottle'', [''Bottle'', ''Bottle with Milk'']),
      (''AdultTrade'', [''Pocket Egg'', ''Pocket Cucco'']),
      (''ChildTrade'', [''Weird Egg'', ''Chicken'']),
      (''Song'', [''Zeldas Lullaby'']),
      (''MajorItem'', [''Bow'', ''Kokiri Sword'', ''Zeldas Lullaby''])]"

definition plain_items :: "(string \<times> string) list" where
  "plain_items =
     [(''Kokiri Sword'', ''Item''), (''Bow'', ''Item''), (''Recovery Heart'', ''Item''),
      (''Rupees (5)'', ''Item''), (''Bottle'', ''Item''), (''Bottle with Milk'', ''Item''),
      (''Zeldas Lullaby'', ''Song'')]"

definition plain_env :: "nat Env" where
  "plain_env =
     \<lparr>settings = plain_settings, search_groups = plain_groups, self_id = 0, n_worlds = 1,
      item_groups = plain_groups, item_info = plain_items,
      is_item = has_key plain_items, item_iterator = map fst plain_items,
      get_junk_item = (\<lambda>n pool plando g.
         if n < 1 then (Inl (ValueError ''count must be greater than 0''), g)
         else (Inr (replicate (nat n) ''Recovery Heart''), g)),
      build_close_match = (\<lambda>name kind. []),
      rand = (\<lambda>g. (g, Suc g))\<rparr>"

definition plain_wd :: "nat WorldDistribution" where
  "plain_wd =
     \<lparr>base_pool = [], major_group = [], item_pool = [], song_as_items = False, rng = 0\<rparr>"

section \<open>Pulling elements out of pools\<close>

text \<open>
  \<open>pools\<close> is a list of distinct list objects; a candidate pairs an element with the
  pool it stands in, here the pool's index. \<open>pool.remove(element)\<close> deletes the first
  element equal to \<open>element\<close>, which is \<open>remove1\<close>.
\<close>

definition candidates :: "('a \<Rightarrow> bool) \<Rightarrow> 'a list list \<Rightarrow> ('a \<times> nat) list" where
  "candidates predicate pools =
     concat (map (\<lambda>(i, pool). map (\<lambda>element. (element, i)) (filter predicate pool))
                 (enumerate 0 pools))"

definition pull_random_element ::
  "('g \<Rightarrow> nat \<times> 'g) \<Rightarrow> 'a list list \<Rightarrow> ('a \<Rightarrow> bool) \<Rightarrow> bool \<Rightarrow> 'g
     \<Rightarrow> 'a option \<times> 'a list list \<times> 'g" where
  "pull_random_element rnd pools predicate remove g =
     (let cs = candidates predicate pools in
      if length cs = 0 then (None, pools, g)
      else (case choice rnd g cs of
              ((element, i), g') \<Rightarrow>
                (Some element,
                 (if remove then pools[i := remove1 element (pools ! i)] else pools),
                 g')))"

fun pull_first_in_pool :: "('a \<Rightarrow> bool) \<Rightarrow> 'a list \<Rightarrow> 'a option" where
  "pull_first_in_pool predicate [] = None"
| "pull_first_in_pool predicate (element # pool) =
     (if predicate element then Some element else pull_first_in_pool predicate pool)"

fun pull_first_element ::
  "'a list list \<Rightarrow> ('a \<Rightarrow> bool) \<Rightarrow> bool \<Rightarrow> 'a option \<times> 'a list list" where
  "pull_first_element [] predicate remove = (None, [])"
| "pull_first_element (pool # pools) predicate remove =
     (case pull_first_in_pool predicate pool of
        Some element \<Rightarrow>
          (Some element, (if remove then remove1 element pool else pool) # pools)
      | None \<Rightarrow>
          (case pull_first_element pools predicate remove of
             (r, pools') \<Rightarrow> (r, pool # pools')))"

section \<open>WorldDistribution: the pool allocator\<close>

text \<open>
  A method that changes pools and the WorldDistribution returns its result, or the
  exception it raised, together with the pools and the state as they are at that
  moment: a caller that catches the exception goes on from the state the failed call
  left behind.
\<close>

definition dq :: string where
  "dq = [CHR 0x22]"

definition py_repr :: "string \<Rightarrow> string" where
  "py_repr s = [CHR 0x27] @ s @ [CHR 0x27]"

text \<open>
  \<open>pool_remove_item\<close>. The elements of the pools are item names (\<open>world_id\<close> is
  \<open>None\<close>, \<open>key\<close> is the identity) or items (\<open>key\<close> is the name of the item, \<open>wid\<close>
  the index of its world). \<open>remove_loop\<close> is the loop \<open>for i in range(count)\<close> with
  \<open>count - i\<close> rounds to go; when nothing is left to pull with \<open>use_base_pool\<close>, the
  method calls itself for the rounds to go without it.
\<close>

function pool_remove_item ::
    "'g Env \<Rightarrow> ('e \<Rightarrow> string) \<Rightarrow> ('e \<Rightarrow> nat) \<Rightarrow> 'e list list \<Rightarrow> string \<Rightarrow> int \<Rightarrow> nat option \<Rightarrow> bool
       \<Rightarrow> 'g WorldDistribution \<Rightarrow> (error + 'e list) \<times> 'e list list \<times> 'g WorldDistribution"
  and remove_loop ::
    "'g Env \<Rightarrow> ('e \<Rightarrow> string) \<Rightarrow> ('e \<Rightarrow> nat) \<Rightarrow> (string \<Rightarrow> bool) \<Rightarrow> 'e list list \<Rightarrow> string \<Rightarrow> nat
       \<Rightarrow> nat option \<Rightarrow> bool
       \<Rightarrow> 'g WorldDistribution \<Rightarrow> (error + 'e list) \<times> 'e list list \<times> 'g WorldDistribution"
where
  "pool_remove_item C key wid pools item_name cnt world_id use_base_pool st =
     (case pattern_matcher_str C item_name st of
        (Inl e, st') \<Rightarrow> (Inl e, pools, st')
      | (Inr base_remove_matcher, st') \<Rightarrow>
          remove_loop C key wid base_remove_matcher pools item_name (nat cnt)
            world_id use_base_pool st')"
| "remove_loop C key wid base_remove_matcher pools item_name 0 world_id use_base_pool st =
     (Inr [], pools, st)"
| "remove_loop C key wid base_remove_matcher pools item_name (Suc n) world_id use_base_pool st =
     (let remove_matcher = (\<lambda>name. base_remove_matcher name
                                \<and> ((name \<in> set (base_pool st)) \<noteq> (\<not> use_base_pool)));
          predicate = (\<lambda>item. (case world_id of None \<Rightarrow> True | Some w \<Rightarrow> wid item = w)
                                \<and> remove_matcher (key item))
      in case pull_random_element (rand C) pools predicate True (rng st) of
           (None, pools', g) \<Rightarrow>
             if \<not> use_base_pool then
               (if is_item C item_name
                then (Inl (KeyError (''No remaining items matching '' @ dq @ item_name @ dq
                                     @ '' to be removed.'')), pools', st\<lparr>rng := g\<rparr>)
                else (Inl (KeyError (''No items matching '' @ dq @ item_name @ dq)),
                      pools', st\<lparr>rng := g\<rparr>))
             else pool_remove_item C key wid pools' item_name (int (Suc n)) world_id False
                    (st\<lparr>rng := g\<rparr>)
         | (Some removed_item, pools', g) \<Rightarrow>
             (case (if use_base_pool then py_remove (key removed_item) (base_pool st)
                    else Inr (base_pool st)) of
                Inl e \<Rightarrow> (Inl e, pools', st\<lparr>rng := g\<rparr>)
              | Inr pool \<Rightarrow>
                  (case remove_loop C key wid base_remove_matcher pools' item_name n
                          world_id use_base_pool (st\<lparr>rng := g, base_pool := pool\<rparr>) of
                     (Inl e, pools'', st') \<Rightarrow> (Inl e, pools'', st')
                   | (Inr removed_items, pools'', st') \<Rightarrow>
                       (Inr (removed_item # removed_items), pools'', st'))))"
  by pat_completeness auto
termination
  by (relation "measure (\<lambda>x. case x of
          Inl (C, key, wid, pools, item_name, cnt, world_id, use_base_pool, st) \<Rightarrow>
            4 * nat cnt + (if use_base_pool then 2 else 0) + 1
        | Inr (C, key, wid, m, pools, item_name, n, world_id, use_base_pool, st) \<Rightarrow>
            4 * n + (if use_base_pool then 2 else 0))") auto

text \<open>\<open>random.choices(candidates, k=count)\<close>: \<open>count\<close> draws with replacement.\<close>

fun choices :: "('g \<Rightarrow> nat \<times> 'g) \<Rightarrow> 'a list \<Rightarrow> nat \<Rightarrow> 'g \<Rightarrow> 'a list \<times> 'g" where
  "choices rnd xs 0 g = ([], g)"
| "choices rnd xs (Suc k) g =
     (case choice rnd g xs of
        (x, g') \<Rightarrow> (case choices rnd xs k g' of (rest, g'') \<Rightarrow> (x # rest, g'')))"

text \<open>
  The candidates of \<open>pool_add_item\<close> for a pattern: \<open>ItemIterator\<close> compiles the
  pattern anew for every item it tests; an item with the pool count set to 0 is left
  out.
\<close>

fun add_candidates ::
  "'g Env \<Rightarrow> string \<Rightarrow> string list \<Rightarrow> 'g WorldDistribution
     \<Rightarrow> (error + string list) \<times> 'g WorldDistribution" where
  "add_candidates C item_name [] st = (Inr [], st)"
| "add_candidates C item_name (name # names) st =
     (case pattern_matcher_str C item_name st of
        (Inl e, st') \<Rightarrow> (Inl e, st')
      | (Inr m, st') \<Rightarrow>
          (case add_candidates C item_name names st' of
             (Inl e, st'') \<Rightarrow> (Inl e, st'')
           | (Inr rest, st'') \<Rightarrow>
               (if m name \<and> (\<not> has_key (item_pool st) name
                              \<or> pcount (dict_get (item_pool st) name \<lparr>ptype = [], pcount = 1\<rparr>) \<noteq> 0)
                then (Inr (name # rest), st'') else (Inr rest, st''))))"

definition pool_add_item ::
  "'g Env \<Rightarrow> string list \<Rightarrow> string \<Rightarrow> int \<Rightarrow> 'g WorldDistribution
     \<Rightarrow> (error + string list) \<times> string list \<times> 'g WorldDistribution" where
  "pool_add_item C pool item_name cnt st =
     (if item_name = ''#Junk'' then
        (case get_junk_item C cnt pool (item_pool st) (rng st) of
           (Inl e, g) \<Rightarrow> (Inl e, pool, st\<lparr>rng := g\<rparr>)
         | (Inr added_items, g) \<Rightarrow> (Inr added_items, pool @ added_items, st\<lparr>rng := g\<rparr>))
      else if is_pattern item_name then
        (case add_candidates C item_name (item_iterator C) st of
           (Inl e, st') \<Rightarrow> (Inl e, pool, st')
         | (Inr cands, st') \<Rightarrow>
             if length cands = 0
             then (Inl (RuntimeError
                     (''Unknown item, or item set to 0 in the item pool could not be added: ''
                      @ py_repr item_name @ ''. '' @ build_close_match C item_name ''item'')),
                   pool, st')
             else (case choices (rand C) cands (nat cnt) (rng st') of
                     (added_items, g) \<Rightarrow>
                       (Inr added_items, pool @ added_items, st'\<lparr>rng := g\<rparr>)))
      else if \<not> is_item C item_name then
        (Inl (RuntimeError (''Unknown item could not be added: '' @ py_repr item_name @ ''. ''
                            @ build_close_match C item_name ''item'')), pool, st)
      else (Inr (replicate (nat cnt) item_name), pool @ replicate (nat cnt) item_name, st))"

text \<open>
  The elements a removal may take: those of the asked world whose name the compiled
  pattern accepts. \<open>compiled\<close> says that compiling the pattern in the state \<open>st\<close>
  gives the predicate \<open>m\<close> and leaves the state as it is.
\<close>

definition in_scope :: "('e \<Rightarrow> nat) \<Rightarrow> nat option \<Rightarrow> 'e \<Rightarrow> bool" where
  "in_scope wid world_id x = (case world_id of None \<Rightarrow> True | Some w \<Rightarrow> wid x = w)"

definition matches :: "('e \<Rightarrow> string) \<Rightarrow> ('e \<Rightarrow> nat) \<Rightarrow> nat option \<Rightarrow> (string \<Rightarrow> bool) \<Rightarrow> 'e \<Rightarrow> bool" where
  "matches key wid world_id m x = (in_scope wid world_id x \<and> m (key x))"

definition compiled :: "'g Env \<Rightarrow> string \<Rightarrow> (string \<Rightarrow> bool) \<Rightarrow> 'g WorldDistribution \<Rightarrow> bool" where
  "compiled C p m st = (pattern_matcher_str C p st = (Inr m, st))"

definition exhausted_message :: "'g Env \<Rightarrow> string \<Rightarrow> string" where
  "exhausted_message C item_name =
     (if is_item C item_name
      then ''No remaining items matching '' @ dq @ item_name @ dq @ '' to be removed.''
      else ''No items matching '' @ dq @ item_name @ dq)"

text \<open>The number of elements of the pools that satisfy \<open>M\<close>.\<close>

definition mcount :: "('e \<Rightarrow> bool) \<Rightarrow> 'e list list \<Rightarrow> nat" where
  "mcount M pools = length (filter M (concat pools))"

section \<open>Properties of the Record classes\<close>


lemmas rec_defs = bindE_def update_field_def src_get_def src_contains_def normalize_src_def
  assigned_def dict_get_def has_key_def emit_def

lemma Dungeon_rt: "is_null_or_bool (mq r) \<Longrightarrow> DungeonRecord_init (DungeonRecord_to_json r) = Inr r"
  by (cases r; cases "mq r")
     (auto simp: is_null_or_bool_def DungeonRecord_init_def DungeonRecord_to_json_def
        DungeonRecord_update_def DungeonRecord_mapping_def rec_defs)

lemma Trial_rt: "is_null_or_bool (active r) \<Longrightarrow> TrialRecord_init (TrialRecord_to_json r) = Inr r"
  by (cases r; cases "active r")
     (auto simp: is_null_or_bool_def TrialRecord_init_def TrialRecord_to_json_def
        TrialRecord_update_def TrialRecord_mapping_def rec_defs)

lemma EmptyDungeon_rt:
  "is_null_or_bool (empty_flag r) \<Longrightarrow>
     EmptyDungeonRecord_init (EmptyDungeonRecord_to_json r) = Inr r"
  by (cases r; cases "empty_flag r")
     (auto simp: is_null_or_bool_def EmptyDungeonRecord_init_def EmptyDungeonRecord_to_json_def
        EmptyDungeonRecord_update_def rec_defs)

lemma Song_rt: "is_null_or_str (song_notes r) \<Longrightarrow> SongRecord_init (SongRecord_to_json r) = Inr r"
  by (cases r; cases "song_notes r")
     (auto simp: is_null_or_str_def SongRecord_init_def SongRecord_to_json_def
        SongRecord_update_def rec_defs)

lemma Starter_rt: "StarterRecord_init (StarterRecord_to_json r) = Inr r"
  by (cases r)
     (auto simp: StarterRecord_init_def StarterRecord_to_json_def count_of_json_def
        StarterRecord_update_def rec_defs)

lemma ItemPool_rt:
  "valid_ItemPoolRecord r \<Longrightarrow> ItemPoolRecord_init (ItemPoolRecord_to_json r) = Inr r"
  by (cases r)
     (auto simp: valid_ItemPoolRecord_def ItemPoolRecord_init_def ItemPoolRecord_to_json_def
        count_of_json_def ItemPoolRecord_update_def rec_defs Let_def)

lemma Gossip_rt:
  "gtext r \<noteq> None \<Longrightarrow> bindE (GossipRecord_to_json r) GossipRecord_init = Inr r"
  by (cases r)
     (auto simp: GossipRecord_init_def GossipRecord_to_json_def
        GossipRecord_update_def rec_defs Let_def split: option.splits)

lemma is_str_iff: "is_str v \<longleftrightarrow> (\<exists>s. v = JStr s)"
  by (cases v) (auto simp: is_str_def)

lemma Location_to_json_fields:
  "LocationRecord_to_json str_of \<lparr>item = i, player = p, price = Some pr, model = Some mo\<rparr> =
     (if i \<noteq> JNull \<and> p = JNull \<and> pr = JNull \<and> mo = JNull then Inr (JStr (py_str str_of i))
      else Inr (JDict (emit ''item'' i JNull @ emit ''player'' p JNull
                       @ emit ''price'' pr JNull @ emit ''model'' mo JNull)))"
  by (simp add: LocationRecord_to_json_def emit_def Let_def)

lemma Location_init_dict:
  "LocationRecord_init (JDict d) =
     Inr \<lparr>item = dict_get d ''item'' JNull, player = dict_get d ''player'' JNull,
          price = Some (dict_get d ''price'' JNull), model = Some (dict_get d ''model'' JNull)\<rparr>"
  by (simp add: LocationRecord_init_def LocationRecord_update_def bindE_def update_field_def
        src_get_def normalize_src_def assigned_def Let_def)

lemma Location_init_str:
  "LocationRecord_init (JStr s) =
     Inr \<lparr>item = JStr s, player = JNull, price = Some JNull, model = Some JNull\<rparr>"
  by (simp add: LocationRecord_init_def LocationRecord_update_def bindE_def update_field_def
        src_get_def normalize_src_def assigned_def dict_get_def Let_def)

lemma Location_rt:
  assumes "roundtrips_LocationRecord r"
  shows "bindE (LocationRecord_to_json str_of r) LocationRecord_init = Inr r"
proof -
  from assms obtain i p pr mo
    where r: "r = \<lparr>item = i, player = p, price = Some pr, model = Some mo\<rparr>"
    by (cases r) (auto simp: roundtrips_LocationRecord_def)
  show ?thesis
  proof (cases "i \<noteq> JNull \<and> p = JNull \<and> pr = JNull \<and> mo = JNull")
    case True
    with assms r obtain s where "i = JStr s"
      by (auto simp: roundtrips_LocationRecord_def is_str_iff)
    with True r show ?thesis
      by (simp add: Location_to_json_fields Location_init_str bindE_def py_str_def)
  next
    case False
    then show ?thesis
      unfolding r Location_to_json_fields
      by (cases "i = JNull"; cases "p = JNull"; cases "pr = JNull"; cases "mo = JNull")
         (simp_all add: Location_init_dict bindE_def emit_def dict_get_def)
  qed
qed

lemma Entrance_init_dict:
  "\<not> has_key d ''from'' \<Longrightarrow> EntranceRecord_init (JDict d) =
     Inr \<lparr>region = dict_get d ''region'' JNull, origin = dict_get d ''origin'' JNull\<rparr>"
  "has_key d ''from'' \<Longrightarrow> EntranceRecord_init (JDict d) =
     Inr \<lparr>region = dict_get (AList.delete ''from'' (AList.update ''origin'' (dict_get d ''from'' JNull) d)) ''region'' JNull,
          origin = dict_get (AList.delete ''from'' (AList.update ''origin'' (dict_get d ''from'' JNull) d)) ''origin'' JNull\<rparr>"
  by (simp_all add: EntranceRecord_init_def EntranceRecord_update_def bindE_def update_field_def
        src_get_def src_contains_def normalize_src_def assigned_def Let_def)

lemma Entrance_init_str:
  "EntranceRecord_init (JStr s) = Inr \<lparr>region = JStr s, origin = JNull\<rparr>"
  by (simp add: EntranceRecord_init_def EntranceRecord_update_def bindE_def update_field_def
        src_get_def src_contains_def normalize_src_def assigned_def dict_get_def has_key_def Let_def)

lemma Entrance_rt:
  assumes "roundtrips_EntranceRecord r"
  shows "bindE (EntranceRecord_to_json str_of r) EntranceRecord_init = Inr r"
proof -
  obtain rg og where r: "r = \<lparr>region = rg, origin = og\<rparr>" by (cases r) auto
  show ?thesis
  proof (cases "og = JNull")
    case True
    with assms r obtain s where "rg = JStr s"
      by (auto simp: roundtrips_EntranceRecord_def is_str_iff)
    with True r show ?thesis
      by (simp add: EntranceRecord_to_json_def emit_def Entrance_init_str bindE_def py_str_def)
  next
    case False
    then show ?thesis
      unfolding r
      by (cases "rg = JNull")
         (simp_all add: EntranceRecord_to_json_def emit_def Entrance_init_dict bindE_def
            has_key_def dict_get_def)
  qed
qed

lemma Location_list_item:
  "LocationRecord_to_json str_of \<lparr>item = JList l, player = JNull, price = Some JNull, model = Some JNull\<rparr>
     = Inr (JStr (str_of (JList l)))"
  "LocationRecord_init (JStr s) = Inr \<lparr>item = JStr s, player = JNull, price = Some JNull, model = Some JNull\<rparr>"
  by (auto simp: LocationRecord_to_json_def LocationRecord_init_def  LocationRecord_update_def py_str_def rec_defs)

lemma Entrance_default: "EntranceRecord_to_json str_of \<lparr>region = JNull, origin = JNull\<rparr> = Inl (KeyError ''origin'')"
  by (auto simp: EntranceRecord_to_json_def rec_defs)




lemma update_field_dict:
  "update_field update_all (JDict d) k p =
     Inr (if update_all \<or> has_key d k then Some (dict_get d k p) else None)"
  by (simp add: update_field_def src_get_def src_contains_def bindE_def)

lemma assigned_if:
  "assigned (if c then Some v else None) cur id = (if c then v else cur)"
  by (simp add: assigned_def)

lemma bindE_Inr: "bindE (Inr x) f = f x" and bindE_Inl: "bindE (Inl e) f = Inl e"
  by (simp_all add: bindE_def)

lemma ItemPoolRecord_update_dict:
  assumes "count_of_json (if update_all \<or> has_key d ''count'' then dict_get d ''count'' (JInt 1)
                else JInt (pcount self)) = Inr n"
  shows "ItemPoolRecord_update self (JDict d) update_all =
      (if n < 0 then Inl (ValueError ''Count cannot be negative in a ItemPoolRecord.'')
        else (case (if update_all \<or> has_key d ''type'' then dict_get d ''type'' (JStr ''set'')
                else JStr (ptype self)) of
                JStr t \<Rightarrow>
                  if t \<notin> set [''add'', ''remove'', ''set'']
                  then Inl (ValueError ''Type must be 'add', 'remove', or 'set' in a ItemPoolRecord.'')
                  else Inr \<lparr>ptype = t, pcount = n\<rparr>
              | _ \<Rightarrow> Inl (ValueError ''Type must be 'add', 'remove', or 'set' in a ItemPoolRecord.'')))"
  unfolding ItemPoolRecord_update_def normalize_src_def Let_def json.case update_field_dict
      assigned_if assms bindE_Inr
  by (rule refl)

lemma ItemPoolRecord_init_cases:
  "ItemPoolRecord_init (JDict d) = ItemPoolRecord_update \<lparr>ptype = ''set'', pcount = 1\<rparr> (JDict d) True"
  "ItemPoolRecord_init (JInt m) =
     (if m < 0 then Inl (ValueError ''Count cannot be negative in a ItemPoolRecord.'')
      else Inr \<lparr>ptype = ''set'', pcount = m\<rparr>)"
  "ItemPoolRecord_init JNull = Inr \<lparr>ptype = ''set'', pcount = 1\<rparr>"
    apply (simp add: ItemPoolRecord_init_def)
   apply (simp add: ItemPoolRecord_init_def ItemPoolRecord_update_def normalize_src_def
      update_field_dict assigned_def bindE_Inr count_of_json_def dict_get_def has_key_def)
  apply (simp add: ItemPoolRecord_init_def)
  done


lemma Gossip_to_json_filter:
  "gtext r = Some t \<Longrightarrow>
     GossipRecord_to_json r =
       Inr (JDict (filter (\<lambda>kv. snd kv \<noteq> JNull)
              [(''text'', t), (''colors'', colors r),
               (''hinted_locations'', hinted_locations r),
               (''hinted_items'', hinted_items r)]))"
  by (simp add: GossipRecord_to_json_def emit_def)

section \<open>Properties of the starting items\<close>


lemma map_of_dict_update:
  "map_of (dict_update d other) = map_of d ++ map_of (rev other)"
proof (induction other arbitrary: d)
  case Nil
  then show ?case by (simp add: dict_update_def)
next
  case (Cons kv other)
  obtain k v where kv: "kv = (k, v)" by (cases kv)
  have "map_of (dict_update d (kv # other)) = map_of (dict_update (AList.update k v d) other)"
    by (simp add: dict_update_def kv)
  also have "\<dots> = map_of (AList.update k v d) ++ map_of (rev other)"
    by (rule Cons.IH)
  also have "\<dots> = map_of d ++ map_of (rev (kv # other))"
    by (simp add: kv update_conv' map_add_upd_left fun_eq_iff map_add_def split: option.splits)
  finally show ?case .
qed

lemma map_of_rev_distinct: "distinct (map fst xs) \<Longrightarrow> map_of (rev xs) = map_of xs"
  by (induction xs) (auto simp: fun_eq_iff map_add_def image_iff split: option.splits
       dest: map_of_SomeD)

lemma map_of_dict_update_distinct:
  "distinct (map fst other) \<Longrightarrow>
     map_of (dict_update d other) k = (case map_of other k of Some v \<Rightarrow> Some v | None \<Rightarrow> map_of d k)"
  by (simp add: map_of_dict_update map_of_rev_distinct map_add_def)

lemma map_of_filter_key:
  "map_of (filter (\<lambda>(k, v). P k) xs) k = (if P k then map_of xs k else None)"
  by (induction xs) auto



lemma string_of_nat_digit: "n < 10 \<Longrightarrow> string_of_nat n = [''0123456789'' ! n]"
  by simp

lemma world_names_1: "world_names 1 = [''World 1'']" "world_names (Suc 0) = [''World 1'']"
  by (simp_all add: world_names_def)

lemma distinct_filter_keys:
  "distinct (map fst xs) \<Longrightarrow> distinct (map fst (filter P xs))"
  by (induction xs) (auto simp: image_iff)

lemma map_of_Starter:
  "map_of (map (\<lambda>(k, r). (k, Starter r)) d) k = map_option Starter (map_of d k)"
  by (induction d) auto



lemma py_index_in_set: "py_index xs i = Inr x \<Longrightarrow> x \<in> set xs"
  by (auto simp: py_index_def split: if_splits)

lemma py_index_beyond:
  "int (length xs) \<le> i \<Longrightarrow> py_index xs i = Inl (IndexError ''list index out of range'')"
  by (simp add: py_index_def)

lemma bindE_eq_Inr: "bindE m f = Inr y \<longleftrightarrow> (\<exists>x. m = Inr x \<and> f x = Inr y)"
  by (cases m) (simp_all add: bindE_def)

lemma has_key_update: "has_key (AList.update k v d) k' \<longleftrightarrow> k' = k \<or> has_key d k'"
  by (auto simp: has_key_def update_conv')

lemma has_key_iff: "has_key d k \<longleftrightarrow> k \<in> fst ` set d"
  by (simp add: has_key_def map_of_eq_None_iff)

lemma set_ammo_other:
  "set_ammo name A d = Inr d' \<Longrightarrow> k \<notin> fst ` set A \<Longrightarrow> map_of d' k = map_of d k"
proof (induction A arbitrary: d)
  case Nil
  then show ?case by simp
next
  case (Cons p A)
  obtain a qty where p: "p = (a, qty)" by (cases p)
  let ?d1 = "if \<not> has_key d a then AList.update a \<lparr>count = 0\<rparr> d else d"
  from Cons.prems(1) obtain r c where
    "set_ammo name A (AList.update a \<lparr>count = c\<rparr> ?d1) = Inr d'"
    by (auto simp: p Let_def bindE_eq_Inr)
  from Cons.IH [OF this] Cons.prems(2) show ?case
    by (auto simp: p update_conv')
qed

lemma set_ammo_curve:
  "distinct (map fst A) \<Longrightarrow> set_ammo name A d = Inr d' \<Longrightarrow> (a, qty) \<in> set A \<Longrightarrow>
     \<exists>r. map_of d' a = Some r \<and> count r \<in> set qty"
proof (induction A arbitrary: d)
  case Nil
  then show ?case by simp
next
  case (Cons p A)
  obtain a0 qty0 where p: "p = (a0, qty0)" by (cases p)
  let ?d1 = "if \<not> has_key d a0 then AList.update a0 \<lparr>count = 0\<rparr> d else d"
  from Cons.prems(2) obtain r :: StarterRecord and c where
    c: "py_index qty0 (count r - 1) = Inr c"
    and rest: "set_ammo name A (AList.update a0 \<lparr>count = c\<rparr> ?d1) = Inr d'"
    by (auto simp: p Let_def bindE_eq_Inr)
  show ?case
  proof (cases "(a, qty) = (a0, qty0)")
    case True
    from Cons.prems(1) have "a0 \<notin> fst ` set A" by (simp add: p)
    from set_ammo_other [OF rest this]
    have "map_of d' a0 = Some \<lparr>count = c\<rparr>" by (simp add: update_conv')
    with True py_index_in_set [OF c] show ?thesis by simp
  next
    case False
    with Cons.prems(3) have "(a, qty) \<in> set A" by (auto simp: p)
    moreover from Cons.prems(1) have "distinct (map fst A)" by simp
    ultimately show ?thesis using Cons.IH rest by blast
  qed
qed

lemma set_ammo_of_first_find:
  "set_ammo_of_first inventory name d =
     (case find (\<lambda>e. entry_item_name e = name \<and> has_ammo e) inventory of
        None \<Rightarrow> Inr d
      | Some entry \<Rightarrow> set_ammo name (ammo_items entry) d)"
  by (induction inventory) auto

lemma add_missing_ammo_keeps:
  "add_missing_ammo name A d = Inr d' \<Longrightarrow> map_of d k = Some v \<Longrightarrow> map_of d' k = Some v"
proof (induction A arbitrary: d)
  case Nil
  then show ?case by simp
next
  case (Cons p A)
  obtain a qty where p: "p = (a, qty)" by (cases p)
  show ?case
  proof (cases "has_key d a")
    case True
    with Cons show ?thesis by (simp add: p)
  next
    case False
    with Cons.prems(1) obtain c where
      rest: "add_missing_ammo name A
               (AList.update a \<lparr>count = c\<rparr> (AList.update a \<lparr>count = 0\<rparr> d)) = Inr d'"
      by (auto simp: p Let_def bindE_eq_Inr)
    from False Cons.prems(2) have "k \<noteq> a" by (auto simp: has_key_def)
    with Cons.prems(2)
    have "map_of (AList.update a \<lparr>count = c\<rparr> (AList.update a \<lparr>count = 0\<rparr> d)) k = Some v"
      by (simp add: update_conv')
    from Cons.IH [OF rest this] show ?thesis .
  qed
qed

lemma add_missing_ammo_curve:
  "add_missing_ammo name A d = Inr d' \<Longrightarrow> \<not> has_key d a \<Longrightarrow> map_of d' a = Some r \<Longrightarrow>
     \<exists>qty. (a, qty) \<in> set A \<and> count r \<in> set qty"
proof (induction A arbitrary: d)
  case Nil
  then show ?case by (simp add: has_key_def)
next
  case (Cons p A)
  obtain a0 qty0 where p: "p = (a0, qty0)" by (cases p)
  show ?case
  proof (cases "has_key d a0")
    case True
    with Cons.prems(1) have "add_missing_ammo name A d = Inr d'" by (simp add: p)
    from Cons.IH [OF this Cons.prems(2,3)] show ?thesis by auto
  next
    case False
    let ?d2 = "\<lambda>c. AList.update a0 \<lparr>count = c\<rparr> d"
    from False Cons.prems(1) obtain r0 :: StarterRecord and c where
      c: "py_index qty0 (count r0 - 1) = Inr c"
      and rest: "add_missing_ammo name A (?d2 c) = Inr d'"
      by (auto simp: p Let_def bindE_eq_Inr)
    show ?thesis
    proof (cases "a = a0")
      case True
      have "map_of (?d2 c) a0 = Some \<lparr>count = c\<rparr>" by (simp add: update_conv')
      from add_missing_ammo_keeps [OF rest this] Cons.prems(3) True
      have "r = \<lparr>count = c\<rparr>" by simp
      with py_index_in_set [OF c] True show ?thesis by (auto simp: p)
    next
      case False
      with Cons.prems(2) have "\<not> has_key (?d2 c) a" by (simp add: has_key_update)
      from Cons.IH [OF rest this Cons.prems(3)] show ?thesis by auto
    qed
  qed
qed

lemma add_starting_ammo_keeps:
  "add_starting_ammo inventory d = Inr d' \<Longrightarrow> map_of d k = Some v \<Longrightarrow> map_of d' k = Some v"
proof (induction inventory arbitrary: d)
  case Nil
  then show ?case by simp
next
  case (Cons entry inventory)
  show ?case
  proof (cases "has_key d (entry_item_name entry) \<and> has_ammo entry")
    case True
    with Cons.prems(1) obtain d1 where
      d1: "add_missing_ammo (entry_item_name entry) (ammo_items entry) d = Inr d1"
      and rest: "add_starting_ammo inventory d1 = Inr d'"
      by (auto simp: bindE_eq_Inr)
    from add_missing_ammo_keeps [OF d1 Cons.prems(2)] Cons.IH [OF rest] show ?thesis by blast
  next
    case False
    with Cons show ?thesis by auto
  qed
qed

lemma add_starting_ammo_curve:
  "add_starting_ammo inventory d = Inr d' \<Longrightarrow> \<not> has_key d a \<Longrightarrow> map_of d' a = Some r \<Longrightarrow>
     \<exists>entry \<in> set inventory. \<exists>qty. (a, qty) \<in> set (ammo_items entry) \<and> count r \<in> set qty"
proof (induction inventory arbitrary: d)
  case Nil
  then show ?case by (simp add: has_key_def)
next
  case (Cons entry inventory)
  show ?case
  proof (cases "has_key d (entry_item_name entry) \<and> has_ammo entry")
    case True
    with Cons.prems(1) obtain d1 where
      d1: "add_missing_ammo (entry_item_name entry) (ammo_items entry) d = Inr d1"
      and rest: "add_starting_ammo inventory d1 = Inr d'"
      by (auto simp: bindE_eq_Inr)
    show ?thesis
    proof (cases "has_key d1 a")
      case True
      then obtain r1 where r1: "map_of d1 a = Some r1" by (auto simp: has_key_def)
      from add_starting_ammo_keeps [OF rest r1] Cons.prems(3) have "r = r1" by simp
      with add_missing_ammo_curve [OF d1 Cons.prems(2) r1] show ?thesis by auto
    next
      case False
      from Cons.IH [OF rest False Cons.prems(3)] show ?thesis by auto
    qed
  next
    case False
    with Cons.prems(1) have "add_starting_ammo inventory d = Inr d'" by auto
    from Cons.IH [OF this Cons.prems(2,3)] show ?thesis by auto
  qed
qed


lemma add_starting_item_with_ammo_unfold:
  "add_starting_item_with_ammo inventory starting name n =
     set_ammo_of_first inventory name
       (AList.update name \<lparr>count = count (dict_get starting name \<lparr>count = 0\<rparr>) + n\<rparr> starting)"
proof (cases "has_key starting name")
  case True
  then obtain r where "map_of starting name = Some r" by (auto simp: has_key_def)
  with True show ?thesis
    by (simp add: add_starting_item_with_ammo_def dict_lookup_def dict_get_def bindE_def)
next
  case False
  then have "map_of starting name = None" by (simp add: has_key_def)
  with False show ?thesis
    by (simp add: add_starting_item_with_ammo_def dict_lookup_def dict_get_def bindE_def
          update_conv')
qed

lemma set_ammo_beyond:
  assumes "map_of d name = Some r" and "int (length qty) < count r"
  shows "set_ammo name ((a, qty) # rest) d = Inl (IndexError ''list index out of range'')"
proof -
  let ?d1 = "if \<not> has_key d a then AList.update a \<lparr>count = 0\<rparr> d else d"
  have "map_of ?d1 name = Some r"
    using assms(1) by (auto simp: update_conv' has_key_def)
  then have "dict_lookup ?d1 name = Inr r" by (simp add: dict_lookup_def)
  moreover have "py_index qty (count r - 1) = Inl (IndexError ''list index out of range'')"
    using assms(2) by (intro py_index_beyond) simp
  ultimately show ?thesis by (simp add: Let_def bindE_def)
qed

lemma bow_inventory_runs:
  "add_starting_item_with_ammo bow_inventory [] ''Bow'' 2
     = Inr [(''Bow'', \<lparr>count = 2\<rparr>), (''Arrows'', \<lparr>count = 40\<rparr>)]"
  "add_starting_ammo bow_inventory [(''Bow'', \<lparr>count = 3\<rparr>)]
     = Inr [(''Bow'', \<lparr>count = 3\<rparr>), (''Arrows'', \<lparr>count = 50\<rparr>)]"
  by (simp_all add: add_starting_item_with_ammo_def bow_inventory_def has_key_def has_ammo_def
        ammo_items_def dict_lookup_def bindE_def py_index_def Let_def)

section \<open>Properties of pattern matching\<close>


lemma suffix_star_iff: "suffix ''*'' xs \<longleftrightarrow> xs \<noteq> [] \<and> last xs = CHR ''*''"
  by (cases xs rule: rev_cases) (auto simp: suffix_def)

lemma prefix_char_iff: "prefix [c] xs \<longleftrightarrow> (\<exists>ys. xs = c # ys)"
  by (cases xs) auto

lemma wildcard_code:
  "(let wildcard_begin = prefix ''*'' body;
        pattern = (if wildcard_begin then drop 1 body else body);
        wildcard_end = suffix ''*'' pattern
    in if wildcard_end then
         (let pattern = butlast pattern
          in if wildcard_begin then sublist pattern s else prefix pattern s)
       else (if wildcard_begin then suffix pattern s else s = pattern))
   = wildcard_matches body s"
proof (cases "prefix ''*'' body")
  case True
  then obtain rest where body: "body = CHR ''*'' # rest" by (auto simp: prefix_char_iff)
  show ?thesis
  proof (cases "rest = []")
    case True
    then show ?thesis by (simp add: body wildcard_matches_def suffix_star_iff)
  next
    case False
    then show ?thesis
      by (auto simp: body wildcard_matches_def suffix_star_iff drop_Suc)
  qed
next
  case False
  then show ?thesis by (simp add: wildcard_matches_def Let_def)
qed

lemma pattern_matcher_str_wildcard:
  assumes "\<not> prefix ''#'' (pattern_body p)"
  shows "\<exists>m. pattern_matcher_str C p st = (Inr m, st) \<and> (\<forall>s. m s = spec_matches p s)"
proof -
  let ?inv = "prefix ''!'' p"
  let ?body = "pattern_body p"
  have body: "(if ?inv then drop 1 p else p) = ?body"
    by (simp add: pattern_body_def drop_Suc)
  let ?wb = "prefix ''*'' ?body"
  let ?b1 = "if ?wb then drop 1 ?body else ?body"
  let ?m = "if suffix ''*'' ?b1 then
              (if ?wb then (\<lambda>s. ?inv \<noteq> sublist (butlast ?b1) s)
               else (\<lambda>s. ?inv \<noteq> prefix (butlast ?b1) s))
            else (if ?wb then (\<lambda>s. ?inv \<noteq> suffix ?b1 s) else (\<lambda>s. ?inv \<noteq> (s = ?b1)))"
  have run: "pattern_matcher_str C p st = (Inr ?m, st)"
    using assms unfolding pattern_matcher_str_def Let_def body by simp
  have "?m s = spec_matches p s" for s
    using wildcard_code [of ?body s]
    by (simp add: spec_matches_def Let_def split: if_splits)
  with run show ?thesis by blast
qed

lemma pattern_matcher_str_group:
  assumes "prefix ''#'' (pattern_body p)" and "pattern_body p \<noteq> ''#MajorItem''"
    and "map_of (search_groups C) (tl (pattern_body p)) = Some g"
  shows "pattern_matcher_str C p st = (Inr (\<lambda>s. prefix ''!'' p \<noteq> (s \<in> set g)), st)"
proof -
  have body: "(if prefix ''!'' p then drop 1 p else p) = pattern_body p"
    by (simp add: pattern_body_def drop_Suc)
  show ?thesis
    using assms unfolding pattern_matcher_str_def Let_def body by (simp add: drop_Suc)
qed



lemma compute_major_group_state:
  "compute_major_group C g st = (r, st') \<Longrightarrow>
     \<exists>G. st' = st\<lparr>major_group := G\<rparr> \<and> compute_major_group C g st' = (r, st')"
  by (auto simp: compute_major_group_def Let_def filter_empty_conv split: if_splits)

lemma pattern_matcher_str_cases:
  "pattern_matcher_str C p st =
     (if prefix ''#'' (pattern_body p) then
        (case map_of (search_groups C) (tl (pattern_body p)) of
           None \<Rightarrow> (Inl (KeyError (drop 1 (pattern_body p))), st)
         | Some g \<Rightarrow>
             if pattern_body p = ''#MajorItem'' then
               (case (if major_group st = [] then compute_major_group C g st else (Inr (), st)) of
                  (Inl e, st') \<Rightarrow> (Inl e, st')
                | (Inr u, st') \<Rightarrow> (Inr (\<lambda>s. prefix ''!'' p \<noteq> (s \<in> set (major_group st'))), st'))
             else (Inr (\<lambda>s. prefix ''!'' p \<noteq> (s \<in> set g)), st))
      else (Inr (\<lambda>s. spec_matches p s), st))"
proof (cases "prefix ''#'' (pattern_body p)")
  case True
  have body: "(if prefix ''!'' p then drop 1 p else p) = pattern_body p"
    by (simp add: pattern_body_def drop_Suc)
  show ?thesis
    using True unfolding pattern_matcher_str_def Let_def body by (simp add: drop_Suc)
next
  case False
  from pattern_matcher_str_wildcard [OF False, of C st]
  obtain m where "pattern_matcher_str C p st = (Inr m, st)" "\<forall>s. m s = spec_matches p s"
    by blast
  then have "pattern_matcher_str C p st = (Inr (\<lambda>s. spec_matches p s), st)"
    by (simp add: fun_eq_iff)
  with False show ?thesis by simp
qed

lemma pattern_matcher_str_settled:
  "pattern_matcher_str C p st = (Inr m, st') \<Longrightarrow> settled C st st'"
  unfolding pattern_matcher_str_cases settled_def
  by (auto split: if_splits option.splits prod.splits sum.splits)

lemma pattern_matcher_str_after:
  assumes "settled C st st1"
  shows "fst (pattern_matcher_str C q st1) = fst (pattern_matcher_str C q st)"
    and "pattern_matcher_str C q st1 = (Inr r, st2) \<Longrightarrow> settled C st st2"
proof -
  show "fst (pattern_matcher_str C q st1) = fst (pattern_matcher_str C q st)"
  proof (cases "st1 = st")
    case True
    then show ?thesis by simp
  next
    case False
    with assms obtain g where mg: "major_group st = []"
      and g: "map_of (search_groups C) ''MajorItem'' = Some g"
      and c: "compute_major_group C g st = (Inr (), st1)"
      by (auto simp: settled_def)
    from compute_major_group_state [OF c] obtain G where
      st1: "st1 = st\<lparr>major_group := G\<rparr>" and c1: "compute_major_group C g st1 = (Inr (), st1)"
      by blast
    show ?thesis
    proof (cases "prefix ''#'' (pattern_body q) \<and> pattern_body q = ''#MajorItem''")
      case True
      then show ?thesis
        using mg g c c1 by (simp add: pattern_matcher_str_cases)
    next
      case False
      then show ?thesis
        by (auto simp: pattern_matcher_str_cases split: option.splits)
    qed
  qed
  show "settled C st st2" if run: "pattern_matcher_str C q st1 = (Inr r, st2)"
  proof (cases "st1 = st")
    case True
    with run show ?thesis by (auto intro: pattern_matcher_str_settled)
  next
    case False
    with assms obtain g where mg: "major_group st = []"
      and g: "map_of (search_groups C) ''MajorItem'' = Some g"
      and c: "compute_major_group C g st = (Inr (), st1)"
      by (auto simp: settled_def)
    from compute_major_group_state [OF c] obtain G where
      st1: "st1 = st\<lparr>major_group := G\<rparr>" and c1: "compute_major_group C g st1 = (Inr (), st1)"
      by blast
    have "st2 = st1"
      using run g c1 unfolding pattern_matcher_str_cases
      by (auto split: if_splits option.splits prod.splits sum.splits)
    with assms show ?thesis by simp
  qed
qed

lemma matcher_of_after: "settled C st st1 \<Longrightarrow> matcher_of C st1 q = matcher_of C st q"
  by (simp add: matcher_of_def fun_eq_iff pattern_matcher_str_after(1))

lemma pattern_matcher_list_matchers:
  "settled C st st1 \<Longrightarrow> pattern_matcher_list C ps st1 = (Inr ms, st') \<Longrightarrow>
     ms = map (matcher_of C st) ps"
proof (induction ps arbitrary: st1 ms)
  case Nil
  then show ?case by simp
next
  case (Cons p ps)
  from Cons.prems(2) obtain m st2 ms' where
    p: "pattern_matcher_str C p st1 = (Inr m, st2)"
    and rest: "pattern_matcher_list C ps st2 = (Inr ms', st')" and ms: "ms = m # ms'"
    by (auto split: prod.splits sum.splits)
  from pattern_matcher_str_after(2) [OF Cons.prems(1) p] have s2: "settled C st st2" .
  have "matcher_of C st1 p = m" using p by (simp add: matcher_of_def fun_eq_iff)
  then have "matcher_of C st p = m" using matcher_of_after [OF Cons.prems(1)] by simp
  with Cons.IH [OF s2 rest] ms show ?case by simp
qed

lemma pattern_matcher_list_succeeds:
  "settled C st st1 \<Longrightarrow> \<forall>p \<in> set ps. \<exists>m. fst (pattern_matcher_str C p st) = Inr m \<Longrightarrow>
     \<exists>ms st'. pattern_matcher_list C ps st1 = (Inr ms, st')"
proof (induction ps arbitrary: st1)
  case Nil
  then show ?case by simp
next
  case (Cons p ps)
  from Cons.prems(2) obtain m where "fst (pattern_matcher_str C p st) = Inr m" by auto
  with pattern_matcher_str_after(1) [OF Cons.prems(1), of p]
  obtain st2 where p: "pattern_matcher_str C p st1 = (Inr m, st2)"
    by (cases "pattern_matcher_str C p st1") auto
  from pattern_matcher_str_after(2) [OF Cons.prems(1) p] have "settled C st st2" .
  from Cons.IH [OF this] Cons.prems(2) obtain ms st' where
    "pattern_matcher_list C ps st2 = (Inr ms, st')" by auto
  with p show ?case by simp
qed

lemma reduce_or:
  "foldl (\<lambda>acc sub_matcher. (\<lambda>item. sub_matcher item \<or> acc item)) a ms s
     \<longleftrightarrow> (\<exists>m \<in> set ms. m s) \<or> a s"
  by (induction ms arbitrary: a) auto

lemma pattern_matcher_Lst:
  assumes "pattern_matcher C (Lst ps) st = (Inr m, st')"
  shows "m s \<longleftrightarrow> (\<exists>p \<in> set ps. matcher_of C st p s)"
proof -
  from assms obtain ms where l: "pattern_matcher_list C ps st = (Inr ms, st')"
    and m: "m = foldl (\<lambda>acc sub_matcher. (\<lambda>item. sub_matcher item \<or> acc item)) (\<lambda>_. False) ms"
    by (auto simp: pattern_matcher_def split: prod.splits sum.splits)
  have "settled C st st" by (simp add: settled_def)
  from pattern_matcher_list_matchers [OF this l] have "ms = map (matcher_of C st) ps" .
  then show ?thesis by (simp add: m reduce_or)
qed

lemma pattern_matcher_Lst_succeeds:
  assumes "\<forall>p \<in> set ps. \<exists>m. fst (pattern_matcher_str C p st) = Inr m"
  shows "\<exists>m st'. pattern_matcher C (Lst ps) st = (Inr m, st')"
proof -
  have "settled C st st" by (simp add: settled_def)
  from pattern_matcher_list_succeeds [OF this assms] show ?thesis
    by (auto simp: pattern_matcher_def)
qed



lemma pattern_matcher_Str: "pattern_matcher C (Str p) st = pattern_matcher_str C p st"
  by (simp add: pattern_matcher_def)

lemma matcher_of_wildcard:
  "\<not> prefix ''#'' (pattern_body p) \<Longrightarrow> matcher_of C st p s = spec_matches p s"
  by (simp add: matcher_of_def pattern_matcher_str_cases)

lemma sword_examples:
  "spec_matches ''*Sword'' ''Kokiri Sword''" "\<not> spec_matches ''*Sword'' ''Sword Kokiri''"
  "spec_matches ''!Bow'' s = (s \<noteq> ''Bow'')"
  by (simp_all add: spec_matches_def wildcard_matches_def pattern_body_def suffix_to_prefix)

section \<open>Properties of pulling\<close>

lemma candidates_iff:
  "(e, i) \<in> set (candidates P pools) \<longleftrightarrow> i < length pools \<and> e \<in> set (pools ! i) \<and> P e"
  unfolding candidates_def
  apply (simp add: in_set_enumerate_eq image_iff split: prod.splits)
  apply (auto simp: in_set_enumerate_eq)
  done

lemma candidates_empty_iff:
  "candidates P pools = [] \<longleftrightarrow> (\<forall>pool \<in> set pools. \<forall>e \<in> set pool. \<not> P e)"
proof
  assume empty: "candidates P pools = []"
  show "\<forall>pool \<in> set pools. \<forall>e \<in> set pool. \<not> P e"
  proof (intro ballI notI)
    fix pool e assume "pool \<in> set pools" "e \<in> set pool" "P e"
    then obtain i where "i < length pools" "e \<in> set (pools ! i)"
      by (auto simp: in_set_conv_nth)
    with \<open>P e\<close> have "(e, i) \<in> set (candidates P pools)" by (simp add: candidates_iff)
    with empty show False by simp
  qed
next
  assume none: "\<forall>pool \<in> set pools. \<forall>e \<in> set pool. \<not> P e"
  have "set (candidates P pools) = {}"
  proof (rule ccontr)
    assume "set (candidates P pools) \<noteq> {}"
    then obtain e i where "(e, i) \<in> set (candidates P pools)"
      by (cases "candidates P pools") auto
    then have "i < length pools" "e \<in> set (pools ! i)" "P e"
      by (simp_all add: candidates_iff)
    with none show False by (metis nth_mem)
  qed
  then show "candidates P pools = []" by simp
qed

lemma choice_in_set:
  assumes "xs \<noteq> []" and "choice rnd g xs = (x, g')"
  shows "x \<in> set xs"
  using assms by (auto simp: choice_def split: prod.splits)

lemma sum_length_remove1:
  assumes "i < length pools" and "e \<in> set (pools ! i)"
  shows "sum_list (map length (pools[i := remove1 e (pools ! i)])) + 1
           = sum_list (map length pools)"
proof -
  have pos: "length (pools ! i) > 0" using assms(2) by (cases "pools ! i") auto
  have le: "sum_list (map length pools) \<ge> length (pools ! i)"
    using assms(1) by (simp add: member_le_sum_list)
  have "sum_list (map length (pools[i := remove1 e (pools ! i)]))
          = sum_list (map length pools) + (length (pools ! i) - 1) - length (pools ! i)"
    using assms by (simp add: sum_list_update map_update length_remove1)
  then show ?thesis using pos le by arith
qed

lemma pull_random_element_None:
  "fst (pull_random_element rnd pools P remove g) = None
     \<longleftrightarrow> (\<forall>pool \<in> set pools. \<forall>e \<in> set pool. \<not> P e)"
  by (simp add: pull_random_element_def Let_def candidates_empty_iff [symmetric]
           split: prod.splits)

lemma pull_random_element_None_state:
  "pull_random_element rnd pools P remove g = (None, pools', g') \<Longrightarrow> pools' = pools \<and> g' = g"
  by (auto simp: pull_random_element_def Let_def split: prod.splits if_splits)

lemma pull_random_element_Some:
  assumes "pull_random_element rnd pools P remove g = (Some e, pools', g')"
  shows "\<exists>i < length pools. e \<in> set (pools ! i) \<and> P e \<and>
           pools' = (if remove then pools[i := remove1 e (pools ! i)] else pools)"
proof -
  let ?cs = "candidates P pools"
  from assms have ne: "?cs \<noteq> []"
    by (auto simp: pull_random_element_def Let_def split: if_splits)
  obtain c g1 where ch: "choice rnd g ?cs = (c, g1)" by (cases "choice rnd g ?cs")
  obtain e1 i where c: "c = (e1, i)" by (cases c)
  from ne ch have "c \<in> set ?cs" by (rule choice_in_set)
  with c have mem: "i < length pools" "e1 \<in> set (pools ! i)" "P e1"
    by (simp_all add: candidates_iff)
  from assms ne ch c have "e = e1"
    and "pools' = (if remove then pools[i := remove1 e1 (pools ! i)] else pools)"
    by (auto simp: pull_random_element_def Let_def split: if_splits)
  with mem show ?thesis by auto
qed

section \<open>Properties of the pool allocator\<close>


lemma mset_concat_remove1:
  assumes "i < length pools" and "e \<in> set (pools ! i)"
  shows "mset (concat (pools[i := remove1 e (pools ! i)])) + {#e#} = mset (concat pools)"
  using assms
proof (induction pools arbitrary: i)
  case Nil
  then show ?case by simp
next
  case (Cons p pools)
  show ?case
  proof (cases i)
    case 0
    with Cons.prems show ?thesis by simp
  next
    case (Suc j)
    with Cons.prems have "j < length pools" "e \<in> set (pools ! j)" by simp_all
    from Cons.IH [OF this] Suc show ?thesis by simp
  qed
qed

lemma pull_random_element_mset:
  assumes "pull_random_element rnd pools P True g = (Some e, pools', g')"
  shows "P e" and "mset (concat pools') + {#e#} = mset (concat pools)"
    and "length pools' = length pools" and "e \<in> set (concat pools)"
proof -
  from pull_random_element_Some [OF assms] obtain i where
    i: "i < length pools" "e \<in> set (pools ! i)" "P e"
       "pools' = pools[i := remove1 e (pools ! i)]" by auto
  show "P e" by (rule i(3))
  show "mset (concat pools') + {#e#} = mset (concat pools)"
    using mset_concat_remove1 [OF i(1,2)] i(4) by simp
  show "length pools' = length pools" using i(4) by simp
  show "e \<in> set (concat pools)" using i(1,2) by (auto intro: nth_mem)
qed

lemma pull_random_element_None_iff:
  "(\<exists>pools' g'. pull_random_element rnd pools P remove g = (None, pools', g'))
     \<longleftrightarrow> (\<forall>x \<in> set (concat pools). \<not> P x)"
  using pull_random_element_None [of rnd pools P remove g]
  by (cases "pull_random_element rnd pools P remove g") auto

lemma pull_random_element_cases:
  obtains (none) "pull_random_element rnd pools P True g = (None, pools, g)"
      "\<forall>x \<in> set (concat pools). \<not> P x"
  | (some) e pools' g' where "pull_random_element rnd pools P True g = (Some e, pools', g')"
      "P e" "mset (concat pools') + {#e#} = mset (concat pools)"
      "length pools' = length pools" "e \<in> set (concat pools)"
proof (cases "pull_random_element rnd pools P True g")
  case (fields r pools' g')
  show ?thesis
  proof (cases r)
    case None
    with fields pull_random_element_None_state [of rnd pools P True g pools' g']
    have eq: "pull_random_element rnd pools P True g = (None, pools, g)" by simp
    moreover from eq pull_random_element_None_iff [of rnd pools P True g]
    have "\<forall>x \<in> set (concat pools). \<not> P x" by blast
    ultimately show ?thesis by (rule none)
  next
    case (Some e)
    with fields have eq: "pull_random_element rnd pools P True g = (Some e, pools', g')" by simp
    from pull_random_element_mset [OF eq] eq show ?thesis by (intro some)
  qed
qed



lemma remove_loop_False_Suc:
  "remove_loop C key wid m pools item_name (Suc n) world_id False st =
     (case pull_random_element (rand C) pools
             (\<lambda>x. matches key wid world_id m x \<and> key x \<notin> set (base_pool st)) True (rng st) of
        (None, pools', g) \<Rightarrow>
          (Inl (KeyError (exhausted_message C item_name)), pools', st\<lparr>rng := g\<rparr>)
      | (Some e, pools', g) \<Rightarrow>
          (case remove_loop C key wid m pools' item_name n world_id False (st\<lparr>rng := g\<rparr>) of
             (Inl e', p, s) \<Rightarrow> (Inl e', p, s)
           | (Inr items, p, s) \<Rightarrow> (Inr (e # items), p, s)))"
proof -
  have P: "(\<lambda>item. (case world_id of None \<Rightarrow> True | Some w \<Rightarrow> wid item = w)
               \<and> m (key item) \<and> ((key item \<in> set (base_pool st)) \<noteq> (\<not> False)))
         = (\<lambda>x. matches key wid world_id m x \<and> key x \<notin> set (base_pool st))"
    by (auto simp: matches_def in_scope_def fun_eq_iff)
  show ?thesis
    unfolding remove_loop.simps Let_def P
    by (simp add: exhausted_message_def split: prod.splits option.splits)
qed

lemma remove_loop_True_Suc:
  "remove_loop C key wid m pools item_name (Suc n) world_id True st =
     (case pull_random_element (rand C) pools
             (\<lambda>x. matches key wid world_id m x \<and> key x \<in> set (base_pool st)) True (rng st) of
        (None, pools', g) \<Rightarrow>
          pool_remove_item C key wid pools' item_name (int (Suc n)) world_id False (st\<lparr>rng := g\<rparr>)
      | (Some e, pools', g) \<Rightarrow>
          (case py_remove (key e) (base_pool st) of
             Inl e' \<Rightarrow> (Inl e', pools', st\<lparr>rng := g\<rparr>)
           | Inr pool \<Rightarrow>
              (case remove_loop C key wid m pools' item_name n world_id True
                      (st\<lparr>rng := g, base_pool := pool\<rparr>) of
                 (Inl e', p, s) \<Rightarrow> (Inl e', p, s)
               | (Inr items, p, s) \<Rightarrow> (Inr (e # items), p, s))))"
proof -
  have P: "(\<lambda>item. (case world_id of None \<Rightarrow> True | Some w \<Rightarrow> wid item = w)
               \<and> m (key item) \<and> ((key item \<in> set (base_pool st)) \<noteq> (\<not> True)))
         = (\<lambda>x. matches key wid world_id m x \<and> key x \<in> set (base_pool st))"
    by (auto simp: matches_def in_scope_def fun_eq_iff)
  show ?thesis
    unfolding remove_loop.simps Let_def P
    by (simp split: prod.splits option.splits)
qed



declare pool_remove_item.simps [simp del] remove_loop.simps(2) [simp del]

lemma mcount_mset: "mcount M pools = size (filter_mset M (mset (concat pools)))"
  by (simp add: mcount_def flip: mset_filter)

lemma mcount_zero_iff: "mcount M pools = 0 \<longleftrightarrow> (\<forall>x \<in> set (concat pools). \<not> M x)"
  by (simp add: mcount_def filter_empty_conv)

lemma mcount_removed:
  assumes "mset (concat pools') + {#e#} = mset (concat pools)" and "M e"
  shows "mcount M pools = Suc (mcount M pools')"
proof -
  have "filter_mset M (mset (concat pools)) = filter_mset M (mset (concat pools')) + {#e#}"
    using assms by (simp flip: assms(1))
  then show ?thesis by (simp add: mcount_mset)
qed

lemma tier2:
  assumes "\<forall>x \<in> set (concat pools). matches key wid world_id m x \<longrightarrow> key x \<notin> set (base_pool st)"
    and "remove_loop C key wid m pools item_name n world_id False st = (r, pools', st')"
  shows "length pools' = length pools \<and> (\<exists>g. st' = st\<lparr>rng := g\<rparr>) \<and>
         (n \<le> mcount (matches key wid world_id m) pools \<longrightarrow>
            (\<exists>items. r = Inr items \<and> length items = n \<and>
               (\<forall>x \<in> set items. matches key wid world_id m x \<and> key x \<notin> set (base_pool st)) \<and>
               mset (concat pools') + mset items = mset (concat pools))) \<and>
         (mcount (matches key wid world_id m) pools < n \<longrightarrow>
            r = Inl (KeyError (exhausted_message C item_name)))"
  using assms
proof (induction n arbitrary: pools st r pools' st')
  case 0
  then show ?case by (auto intro: exI [of _ "rng st"])
next
  case (Suc n)
  let ?M = "matches key wid world_id m"
  let ?P = "\<lambda>x. ?M x \<and> key x \<notin> set (base_pool st)"
  have PM: "\<And>x. x \<in> set (concat pools) \<Longrightarrow> ?P x = ?M x" using Suc.prems(1) by blast
  show ?case
  proof (cases rule: pull_random_element_cases [of "rand C" pools ?P "rng st"])
    case none
    then have "mcount ?M pools = 0" using PM by (simp add: mcount_zero_iff)
    moreover from Suc.prems(2) none(1)
    have "r = Inl (KeyError (exhausted_message C item_name))" "pools' = pools"
      "st' = st\<lparr>rng := rng st\<rparr>"
      by (simp_all add: remove_loop_False_Suc)
    ultimately show ?thesis by (auto intro: exI [of _ "rng st"])
  next
    case (some e pools1 g1)
    obtain r2 p2 s2 where rec:
      "remove_loop C key wid m pools1 item_name n world_id False (st\<lparr>rng := g1\<rparr>) = (r2, p2, s2)"
      by (cases "remove_loop C key wid m pools1 item_name n world_id False (st\<lparr>rng := g1\<rparr>)")
    have sub: "set (concat pools1) \<subseteq> set (concat pools)"
      using some(3) by (metis mset_subset_eq_add_left set_mset_mono set_mset_mset)
    have inv1: "\<forall>x \<in> set (concat pools1). ?M x \<longrightarrow> key x \<notin> set (base_pool (st\<lparr>rng := g1\<rparr>))"
      using Suc.prems(1) sub by auto
    note IH = Suc.IH [OF inv1 rec]
    have Me: "?M e" using some(2) by simp
    have cnt: "mcount ?M pools = Suc (mcount ?M pools1)"
      using some(3) Me by (rule mcount_removed [where M = "?M"])
    from Suc.prems(2) some(1) rec
    have res: "r = (case r2 of Inl e' \<Rightarrow> Inl e' | Inr items \<Rightarrow> Inr (e # items))"
      "pools' = p2" "st' = s2"
      by (auto simp: remove_loop_False_Suc split: sum.splits)
    have len: "length pools' = length pools" using IH res some(4) by simp
    have stt: "\<exists>g. st' = st\<lparr>rng := g\<rparr>" using IH res by auto
    have ok: "\<exists>items. r = Inr items \<and> length items = Suc n \<and>
               (\<forall>x \<in> set items. ?M x \<and> key x \<notin> set (base_pool st)) \<and>
               mset (concat pools') + mset items = mset (concat pools)"
      if "Suc n \<le> mcount ?M pools"
    proof -
      from that cnt have "n \<le> mcount ?M pools1" by simp
      with IH obtain items where items: "r2 = Inr items" "length items = n"
        "\<forall>x \<in> set items. ?M x \<and> key x \<notin> set (base_pool st)"
        "mset (concat p2) + mset items = mset (concat pools1)" by auto
      have "mset (concat pools') + mset (e # items) = mset (concat pools)"
        using items(4) some(3) res(2) by (simp add: ac_simps flip: some(3))
      with items some(2) res(1) show ?thesis
        by (intro exI [of _ "e # items"]) auto
    qed
    have bad: "r = Inl (KeyError (exhausted_message C item_name))" if "mcount ?M pools < Suc n"
    proof -
      from that cnt have "mcount ?M pools1 < n" by simp
      with IH have "r2 = Inl (KeyError (exhausted_message C item_name))" by simp
      with res show ?thesis by simp
    qed
    from len stt ok bad show ?thesis by blast
  qed
qed

text \<open>
  Claim C2. For a pattern string whose text after an optional leading \<open>!\<close> does not
  begin with \<open>#\<close> (the group patterns), \<open>pattern_matcher\<close> compiles the predicate of
  the grammar: the leading \<open>!\<close> inverts the result; a leading \<open>*\<close> alone is a suffix
  match, a trailing \<open>*\<close> alone a prefix match, both a substring match, neither an
  exact match. A group pattern other than \<open>#MajorItem\<close> matches the members of its
  group, inverted by a leading \<open>!\<close>. The compiled \<open>*Sword\<close> matches \<open>Kokiri Sword\<close>
  and not \<open>Sword Kokiri\<close>, and the compiled \<open>!Bow\<close> matches every name but \<open>Bow\<close>.
  For a list, the compiled predicate is the disjunction of the predicates compiled
  for its elements, each with its own inversion, and it exists when every element
  compiles.
\<close>

theorem pattern_matcher_grammar:
  "(\<not> prefix ''#'' (pattern_body p) \<longrightarrow>
      pattern_matcher C (Str p) st = (Inr (spec_matches p), st)) \<and>
   (prefix ''#'' (pattern_body p) \<and> pattern_body p \<noteq> ''#MajorItem'' \<and>
    map_of (search_groups C) (tl (pattern_body p)) = Some g \<longrightarrow>
      pattern_matcher C (Str p) st = (Inr (\<lambda>s. prefix ''!'' p \<noteq> (s \<in> set g)), st)) \<and>
   matcher_of C st ''*Sword'' ''Kokiri Sword'' \<and>
   \<not> matcher_of C st ''*Sword'' ''Sword Kokiri'' \<and>
   (\<forall>s. matcher_of C st ''!Bow'' s = (s \<noteq> ''Bow'')) \<and>
   (\<forall>m st'. pattern_matcher C (Lst ps) st = (Inr m, st') \<longrightarrow>
      (\<forall>s. m s = (\<exists>p \<in> set ps. matcher_of C st p s))) \<and>
   ((\<forall>p \<in> set ps. \<exists>m. fst (pattern_matcher_str C p st) = Inr m) \<longrightarrow>
      (\<exists>m st'. pattern_matcher C (Lst ps) st = (Inr m, st')))"
proof (intro conjI impI allI)
  show "pattern_matcher C (Str p) st = (Inr (spec_matches p), st)"
    if "\<not> prefix ''#'' (pattern_body p)"
    using that by (simp add: pattern_matcher_Str pattern_matcher_str_cases)
  show "pattern_matcher C (Str p) st = (Inr (\<lambda>s. prefix ''!'' p \<noteq> (s \<in> set g)), st)"
    if "prefix ''#'' (pattern_body p) \<and> pattern_body p \<noteq> ''#MajorItem'' \<and>
        map_of (search_groups C) (tl (pattern_body p)) = Some g"
    using that by (simp add: pattern_matcher_Str pattern_matcher_str_group)
  have nogroup: "\<not> prefix ''#'' (pattern_body ''*Sword'')" "\<not> prefix ''#'' (pattern_body ''!Bow'')"
    by (simp_all add: pattern_body_def)
  show "matcher_of C st ''*Sword'' ''Kokiri Sword''"
    by (simp only: matcher_of_wildcard [OF nogroup(1)] sword_examples)
  show "\<not> matcher_of C st ''*Sword'' ''Sword Kokiri''"
    by (simp only: matcher_of_wildcard [OF nogroup(1)] sword_examples not_False_eq_True)
  show "matcher_of C st ''!Bow'' s = (s \<noteq> ''Bow'')" for s
    by (simp only: matcher_of_wildcard [OF nogroup(2)] sword_examples)
  show "m s = (\<exists>p \<in> set ps. matcher_of C st p s)"
    if "pattern_matcher C (Lst ps) st = (Inr m, st')" for m st' s
    using that by (rule pattern_matcher_Lst)
  show "\<exists>m st'. pattern_matcher C (Lst ps) st = (Inr m, st')"
    if "\<forall>p \<in> set ps. \<exists>m. fst (pattern_matcher_str C p st) = Inr m"
    using that by (rule pattern_matcher_Lst_succeeds)
qed

theorem pattern_matcher_grammar_witness:
  "pattern_matcher plain_env (Str ''!Kokiri*'') plain_wd
     = (Inr (spec_matches ''!Kokiri*''), plain_wd) \<and>
   \<not> spec_matches ''!Kokiri*'' ''Kokiri Sword'' \<and>
   pattern_matcher plain_env (Str ''#Song'') plain_wd
     = (Inr (\<lambda>s. prefix ''!'' ''#Song'' \<noteq> (s \<in> set [''Zeldas Lullaby''])), plain_wd) \<and>
   (\<exists>m st'. pattern_matcher plain_env (Lst [''*Sword'', ''Bow'']) plain_wd = (Inr m, st') \<and>
      m ''Kokiri Sword'' \<and> m ''Bow'' \<and> \<not> m ''Sword Kokiri'')"
proof -
  note T = pattern_matcher_grammar [where C = plain_env and st = plain_wd]
  have 1: "pattern_matcher plain_env (Str ''!Kokiri*'') plain_wd
     = (Inr (spec_matches ''!Kokiri*''), plain_wd)"
    using T [where p = "''!Kokiri*''", THEN conjunct1] by (simp add: pattern_body_def)
  have 2: "\<not> spec_matches ''!Kokiri*'' ''Kokiri Sword''"
    by (simp add: spec_matches_def wildcard_matches_def pattern_body_def suffix_to_prefix)
  have 3: "pattern_matcher plain_env (Str ''#Song'') plain_wd
     = (Inr (\<lambda>s. prefix ''!'' ''#Song'' \<noteq> (s \<in> set [''Zeldas Lullaby''])), plain_wd)"
    using T [where p = "''#Song''" and g = "[''Zeldas Lullaby'']", THEN conjunct2, THEN conjunct1]
    by (simp add: pattern_body_def plain_env_def plain_groups_def)
  let ?ps = "[''*Sword'', ''Bow'']"
  have el: "\<forall>p \<in> set ?ps. \<exists>m. fst (pattern_matcher_str plain_env p plain_wd) = Inr m"
    by (simp add: pattern_matcher_str_cases pattern_body_def)
  from T [where ps = ?ps] el obtain m st' where
    run: "pattern_matcher plain_env (Lst ?ps) plain_wd = (Inr m, st')" by blast
  from T [where ps = ?ps] run
  have m: "m s = (\<exists>p \<in> set ?ps. matcher_of plain_env plain_wd p s)" for s by blast
  have "m ''Kokiri Sword'' \<and> m ''Bow'' \<and> \<not> m ''Sword Kokiri''"
    by (simp add: m matcher_of_wildcard pattern_body_def spec_matches_def wildcard_matches_def
          suffix_to_prefix)
  with 1 2 3 run show ?thesis by blast
qed


text \<open>
  Claim C4, as amended. When the cfg hold both a global entry for an item name
  (a key that is no world name) and an entry for it in this world's \<open>World N\<close> dict,
  the property \<open>starting_items\<close> returns the global entry: the global entries are
  written last and replace the entries of the world. An entry of the world's dict is
  returned for the item names that have no global entry.
\<close>

theorem starting_items_layering:
  assumes "i < n"
    and "distinct (map fst (starting_items_setting cfg))"
    and "map_of (starting_items_setting cfg) (world_names n ! i)
           = Some (PerWorld d)"
    and "distinct (map fst d)"
  shows "\<exists>data. starting_items cfg n i = Inr data \<and>
           (\<forall>k. map_of data k =
              (if k \<notin> set (world_names n)
                    \<and> map_of (starting_items_setting cfg) k \<noteq> None
               then map_of (starting_items_setting cfg) k
               else map_option Starter (map_of d k)))"
proof -
  let ?setting = "starting_items_setting cfg"
  let ?names = "world_names n"
  let ?world = "dict_update [] (map (\<lambda>(k, r). (k, Starter r)) d)"
  let ?global = "filter (\<lambda>(item_name, count). item_name \<notin> set ?names) ?setting"
  have len: "i < length ?names" using assms(1) by (simp add: world_names_def)
  have run: "starting_items cfg n i = Inr (dict_update ?world ?global)"
    using len assms(3)
    by (simp add: starting_items_def Let_def has_key_def dict_get_def bindE_def)
  have dw: "distinct (map fst (map (\<lambda>(k, r). (k, Starter r)) d))"
    using assms(4) by (simp add: comp_def case_prod_unfold)
  have world: "map_of ?world k = map_option Starter (map_of d k)" for k
    by (simp add: map_of_dict_update_distinct [OF dw] map_of_Starter split: option.splits)
  have glob: "map_of ?global k = (if k \<notin> set ?names then map_of ?setting k else None)" for k
    by (rule map_of_filter_key)
  have "map_of (dict_update ?world ?global) k =
      (if k \<notin> set ?names \<and> map_of ?setting k \<noteq> None then map_of ?setting k
       else map_option Starter (map_of d k))" for k
    using distinct_filter_keys [OF assms(2), of "\<lambda>(item_name, count). item_name \<notin> set ?names"]
    by (auto simp: map_of_dict_update_distinct glob world split: option.splits)
  with run show ?thesis by blast
qed

theorem starting_items_layering_witness:
  "\<exists>data. starting_items bow_settings 1 0 = Inr data \<and>
      map_of data ''Bow'' = Some (Starter \<lparr>count = 1\<rparr>) \<and>
      map_of data ''Hookshot'' = Some (Starter \<lparr>count = 1\<rparr>)"
proof -
  have h: "(0 :: nat) < 1" "distinct (map fst (starting_items_setting bow_settings))"
    "map_of (starting_items_setting bow_settings) (world_names 1 ! 0)
       = Some (PerWorld [(''Bow'', \<lparr>count = 2\<rparr>), (''Hookshot'', \<lparr>count = 1\<rparr>)])"
    "distinct (map fst [(''Bow'', \<lparr>count = 2\<rparr>), (''Hookshot'', \<lparr>count = 1 :: int\<rparr>)])"
    by (simp_all add: bow_settings_def plain_settings_def world_names_1)
  from starting_items_layering [OF h]
  obtain data where d: "starting_items bow_settings 1 0 = Inr data"
    and m: "\<And>k. map_of data k =
              (if k \<notin> set (world_names 1)
                    \<and> map_of (starting_items_setting bow_settings) k \<noteq> None
               then map_of (starting_items_setting bow_settings) k
               else map_option Starter
                      (map_of [(''Bow'', \<lparr>count = 2\<rparr>), (''Hookshot'', \<lparr>count = 1\<rparr>)] k))"
    by blast
  have "map_of data ''Bow'' = Some (Starter \<lparr>count = 1\<rparr>)"
    by (simp add: m world_names_1 bow_settings_def plain_settings_def)
  moreover have "map_of data ''Hookshot'' = Some (Starter \<lparr>count = 1\<rparr>)"
    by (simp add: m world_names_1 bow_settings_def plain_settings_def)
  ultimately show ?thesis using d by blast
qed

text \<open>
  The per-player count of 2 for the Bow is replaced by the global count of 1.
\<close>

theorem starting_items_per_player_overridden:
  "starting_items bow_settings 1 0
     = Inr [(''Bow'', Starter \<lparr>count = 1\<rparr>), (''Hookshot'', Starter \<lparr>count = 1\<rparr>)] \<and>
   get_starting_item bow_settings 1 0 ''Bow'' = Inr 1"
  by (simp add: get_starting_item_def starting_items_def bow_settings_def plain_settings_def
        world_names_1 has_key_def dict_get_def dict_update_def bindE_def Let_def)


text \<open>
  Claim C6, as amended. Whenever \<open>add_starting_item_with_ammo\<close> or
  \<open>add_starting_ammo\<close> returns, every ammo count it wrote is an entry of that ammo's
  count curve, hence at most the maximum of the curve. The entry is
  \<open>qty[count - 1]\<close>: when the number of copies of the equipment exceeds the length of
  the curve, the function raises an IndexError instead of taking the last entry.
\<close>

theorem ammo_expansion_within_curve:
  "(find (\<lambda>e. entry_item_name e = name \<and> has_ammo e) inventory = Some entry \<and>
    distinct (map fst (ammo_items entry)) \<and>
    add_starting_item_with_ammo inventory starting name n = Inr starting' \<and>
    (a, qty) \<in> set (ammo_items entry)
      \<longrightarrow> (\<exists>r. map_of starting' a = Some r \<and> count r \<in> set qty \<and> count r \<le> Max (set qty))) \<and>
   (find (\<lambda>e. entry_item_name e = name \<and> has_ammo e) inventory = Some entry \<and>
    ammo_items entry = (a, qty) # rest \<and>
    int (length qty) < count (dict_get starting name \<lparr>count = 0\<rparr>) + n
      \<longrightarrow> add_starting_item_with_ammo inventory starting name n
            = Inl (IndexError ''list index out of range'')) \<and>
   (add_starting_ammo inventory starting = Inr starting'' \<and> \<not> has_key starting a \<and>
    map_of starting'' a = Some r
      \<longrightarrow> (\<exists>e \<in> set inventory. \<exists>qty. (a, qty) \<in> set (ammo_items e) \<and>
             count r \<in> set qty \<and> count r \<le> Max (set qty)))"
proof (intro conjI impI)
  assume h: "find (\<lambda>e. entry_item_name e = name \<and> has_ammo e) inventory = Some entry \<and>
    distinct (map fst (ammo_items entry)) \<and>
    add_starting_item_with_ammo inventory starting name n = Inr starting' \<and>
    (a, qty) \<in> set (ammo_items entry)"
  then have "set_ammo name (ammo_items entry)
       (AList.update name \<lparr>count = count (dict_get starting name \<lparr>count = 0\<rparr>) + n\<rparr> starting)
     = Inr starting'"
    by (auto simp: add_starting_item_with_ammo_unfold set_ammo_of_first_find)
  from set_ammo_curve [OF _ this] h
  obtain r where "map_of starting' a = Some r" "count r \<in> set qty" by blast
  then show "\<exists>r. map_of starting' a = Some r \<and> count r \<in> set qty \<and> count r \<le> Max (set qty)"
    by auto
next
  assume h: "find (\<lambda>e. entry_item_name e = name \<and> has_ammo e) inventory = Some entry \<and>
    ammo_items entry = (a, qty) # rest \<and>
    int (length qty) < count (dict_get starting name \<lparr>count = 0\<rparr>) + n"
  let ?r = "\<lparr>count = count (dict_get starting name \<lparr>count = 0\<rparr>) + n\<rparr>"
  have "map_of (AList.update name ?r starting) name = Some ?r" by (simp add: update_conv')
  from set_ammo_beyond [OF this, of qty a rest] h
  show "add_starting_item_with_ammo inventory starting name n
            = Inl (IndexError ''list index out of range'')"
    by (auto simp: add_starting_item_with_ammo_unfold set_ammo_of_first_find)
next
  assume h: "add_starting_ammo inventory starting = Inr starting'' \<and> \<not> has_key starting a \<and>
    map_of starting'' a = Some r"
  then obtain e qty where "e \<in> set inventory" "(a, qty) \<in> set (ammo_items e)"
    "count r \<in> set qty"
    using add_starting_ammo_curve [of inventory starting starting'' a r] by blast
  then show "\<exists>e \<in> set inventory. \<exists>qty. (a, qty) \<in> set (ammo_items e) \<and>
             count r \<in> set qty \<and> count r \<le> Max (set qty)"
    by (intro bexI [of _ e] exI [of _ qty]) auto
qed

theorem ammo_expansion_within_curve_witness:
  "(\<exists>r. map_of [(''Bow'', \<lparr>count = 2\<rparr>), (''Arrows'', \<lparr>count = 40\<rparr>)] ''Arrows'' = Some r \<and>
        count r \<in> set [30, 40, 50] \<and> count r \<le> Max (set [30, 40, 50])) \<and>
   add_starting_item_with_ammo bow_inventory [] ''Bow'' 4
     = Inl (IndexError ''list index out of range'') \<and>
   (\<exists>e \<in> set bow_inventory. \<exists>qty. (''Arrows'', qty) \<in> set (ammo_items e) \<and>
       (50 :: int) \<in> set qty \<and> 50 \<le> Max (set qty))"
proof -
  let ?entry = "\<lparr>entry_item_name = ''Bow'', entry_ammo = Some [(''Arrows'', [30, 40, 50])]\<rparr>"
  have f: "find (\<lambda>e. entry_item_name e = ''Bow'' \<and> has_ammo e) bow_inventory = Some ?entry"
    by (simp add: bow_inventory_def has_ammo_def)
  have a: "ammo_items ?entry = [(''Arrows'', [30, 40, 50])]" by (simp add: ammo_items_def)
  note T = ammo_expansion_within_curve
    [where inventory = bow_inventory and name = "''Bow''" and entry = ?entry
       and a = "''Arrows''" and qty = "[30, 40, 50]" and rest = "[]"]
  have 1: "\<exists>r. map_of [(''Bow'', \<lparr>count = 2\<rparr>), (''Arrows'', \<lparr>count = 40\<rparr>)] ''Arrows'' = Some r \<and>
        count r \<in> set [30, 40, 50] \<and> count r \<le> Max (set [30, 40, 50])"
    using T [where starting = "[]" and n = 2
               and starting' = "[(''Bow'', \<lparr>count = 2\<rparr>), (''Arrows'', \<lparr>count = 40\<rparr>)]",
             THEN conjunct1] f a bow_inventory_runs(1)
    by simp
  have 2: "add_starting_item_with_ammo bow_inventory [] ''Bow'' 4
     = Inl (IndexError ''list index out of range'')"
    using T [where starting = "[]" and n = 4, THEN conjunct2, THEN conjunct1] f a
    by (simp add: dict_get_def)
  have 3: "\<exists>e \<in> set bow_inventory. \<exists>qty. (''Arrows'', qty) \<in> set (ammo_items e) \<and>
       (50 :: int) \<in> set qty \<and> 50 \<le> Max (set qty)"
    using T [where starting = "[(''Bow'', \<lparr>count = 3\<rparr>)]" and r = "\<lparr>count = 50\<rparr>"
               and starting'' = "[(''Bow'', \<lparr>count = 3\<rparr>), (''Arrows'', \<lparr>count = 50\<rparr>)]",
             THEN conjunct2, THEN conjunct2] bow_inventory_runs(2)
    by (simp add: has_key_def)
  from 1 2 3 show ?thesis by blast
qed

text \<open>
  A Bow with the count curve (30, 40, 50) and four copies requested: no clamping to
  50, but an IndexError, from either function.
\<close>

theorem ammo_expansion_not_clamped:
  "add_starting_item_with_ammo bow_inventory [] ''Bow'' 4
     = Inl (IndexError ''list index out of range'') \<and>
   add_starting_ammo bow_inventory [(''Bow'', \<lparr>count = 4\<rparr>)]
     = Inl (IndexError ''list index out of range'')"
  by (simp add: add_starting_item_with_ammo_def bow_inventory_def has_key_def has_ammo_def
        ammo_items_def dict_lookup_def bindE_def py_index_def Let_def)


text \<open>
  Claim C8, as amended. For every Record class, loading the document form of a record
  gives the record back, for every record with attributes of the declared types,
  except a LocationRecord whose only attribute off its default is an item that is no
  string and an EntranceRecord with no origin whose region is no string. The
  \<open>to_json\<close> of the base class, which a GossipRecord uses as it is, emits exactly
  the properties whose value differs from the default, and a GossipRecord or
  LocationRecord at its defaults is the empty dict; an EmptyDungeonRecord or
  SongRecord at its default is null. A DungeonRecord or TrialRecord at its default
  is the string \<open>random\<close>, and an ItemPoolRecord or StarterRecord at its defaults is
  the count 1.
\<close>

theorem Record_roundtrip:
  "(is_null_or_bool (mq dr) \<longrightarrow> DungeonRecord_init (DungeonRecord_to_json dr) = Inr dr) \<and>
   (is_null_or_bool (empty_flag er) \<longrightarrow>
      EmptyDungeonRecord_init (EmptyDungeonRecord_to_json er) = Inr er) \<and>
   (is_null_or_bool (active tr) \<longrightarrow> TrialRecord_init (TrialRecord_to_json tr) = Inr tr) \<and>
   (is_null_or_str (song_notes sr) \<longrightarrow> SongRecord_init (SongRecord_to_json sr) = Inr sr) \<and>
   (valid_ItemPoolRecord ir \<longrightarrow> ItemPoolRecord_init (ItemPoolRecord_to_json ir) = Inr ir) \<and>
   StarterRecord_init (StarterRecord_to_json st) = Inr st \<and>
   (gtext gr \<noteq> None \<longrightarrow> bindE (GossipRecord_to_json gr) GossipRecord_init = Inr gr) \<and>
   (roundtrips_LocationRecord lr \<longrightarrow>
      bindE (LocationRecord_to_json str_of lr) LocationRecord_init = Inr lr) \<and>
   (roundtrips_EntranceRecord nr \<longrightarrow>
      bindE (EntranceRecord_to_json str_of nr) EntranceRecord_init = Inr nr) \<and>
   (\<forall>t. gtext gr = Some t \<longrightarrow>
      GossipRecord_to_json gr =
        Inr (JDict (filter (\<lambda>kv. snd kv \<noteq> JNull)
               [(''text'', t), (''colors'', colors gr),
                (''hinted_locations'', hinted_locations gr),
                (''hinted_items'', hinted_items gr)]))) \<and>
   GossipRecord_to_json
      \<lparr>gtext = Some JNull, colors = JNull, hinted_locations = JNull, hinted_items = JNull\<rparr>
     = Inr (JDict []) \<and>
   LocationRecord_to_json str_of
      \<lparr>item = JNull, player = JNull, price = Some JNull, model = Some JNull\<rparr>
     = Inr (JDict []) \<and>
   EmptyDungeonRecord_to_json \<lparr>empty_flag = JNull\<rparr> = JNull \<and>
   SongRecord_to_json \<lparr>song_notes = JNull\<rparr> = JNull \<and>
   DungeonRecord_to_json \<lparr>mq = JNull\<rparr> = JStr ''random'' \<and>
   TrialRecord_to_json \<lparr>active = JNull\<rparr> = JStr ''random'' \<and>
   ItemPoolRecord_to_json \<lparr>ptype = ''set'', pcount = 1\<rparr> = JInt 1 \<and>
   StarterRecord_to_json \<lparr>count = 1\<rparr> = JInt 1"
proof (intro conjI impI allI)
  show "DungeonRecord_init (DungeonRecord_to_json dr) = Inr dr" if "is_null_or_bool (mq dr)"
    using that by (rule Dungeon_rt)
  show "EmptyDungeonRecord_init (EmptyDungeonRecord_to_json er) = Inr er"
    if "is_null_or_bool (empty_flag er)"
    using that by (rule EmptyDungeon_rt)
  show "TrialRecord_init (TrialRecord_to_json tr) = Inr tr" if "is_null_or_bool (active tr)"
    using that by (rule Trial_rt)
  show "SongRecord_init (SongRecord_to_json sr) = Inr sr" if "is_null_or_str (song_notes sr)"
    using that by (rule Song_rt)
  show "ItemPoolRecord_init (ItemPoolRecord_to_json ir) = Inr ir" if "valid_ItemPoolRecord ir"
    using that by (rule ItemPool_rt)
  show "StarterRecord_init (StarterRecord_to_json st) = Inr st"
    by (rule Starter_rt)
  show "bindE (GossipRecord_to_json gr) GossipRecord_init = Inr gr" if "gtext gr \<noteq> None"
    using that by (rule Gossip_rt)
  show "bindE (LocationRecord_to_json str_of lr) LocationRecord_init = Inr lr"
    if "roundtrips_LocationRecord lr"
    using that by (rule Location_rt)
  show "bindE (EntranceRecord_to_json str_of nr) EntranceRecord_init = Inr nr"
    if "roundtrips_EntranceRecord nr"
    using that by (rule Entrance_rt)
  show "GossipRecord_to_json gr =
        Inr (JDict (filter (\<lambda>kv. snd kv \<noteq> JNull)
               [(''text'', t), (''colors'', colors gr),
                (''hinted_locations'', hinted_locations gr),
                (''hinted_items'', hinted_items gr)]))" if "gtext gr = Some t" for t
    using that by (rule Gossip_to_json_filter)
  show "GossipRecord_to_json
      \<lparr>gtext = Some JNull, colors = JNull, hinted_locations = JNull, hinted_items = JNull\<rparr>
     = Inr (JDict [])"
    by (simp add: GossipRecord_to_json_def emit_def)
  show "LocationRecord_to_json str_of
      \<lparr>item = JNull, player = JNull, price = Some JNull, model = Some JNull\<rparr>
     = Inr (JDict [])"
    by (simp add: Location_to_json_fields emit_def)
  show "EmptyDungeonRecord_to_json \<lparr>empty_flag = JNull\<rparr> = JNull"
    by (simp add: EmptyDungeonRecord_to_json_def)
  show "SongRecord_to_json \<lparr>song_notes = JNull\<rparr> = JNull"
    by (simp add: SongRecord_to_json_def)
  show "DungeonRecord_to_json \<lparr>mq = JNull\<rparr> = JStr ''random''"
    by (simp add: DungeonRecord_to_json_def)
  show "TrialRecord_to_json \<lparr>active = JNull\<rparr> = JStr ''random''"
    by (simp add: TrialRecord_to_json_def)
  show "ItemPoolRecord_to_json \<lparr>ptype = ''set'', pcount = 1\<rparr> = JInt 1"
    by (simp add: ItemPoolRecord_to_json_def)
  show "StarterRecord_to_json \<lparr>count = 1\<rparr> = JInt 1"
    by (simp add: StarterRecord_to_json_def)
qed

theorem Record_roundtrip_witness:
  "DungeonRecord_init (DungeonRecord_to_json \<lparr>mq = JBool True\<rparr>) = Inr \<lparr>mq = JBool True\<rparr> \<and>
   EmptyDungeonRecord_init (EmptyDungeonRecord_to_json \<lparr>empty_flag = JBool False\<rparr>)
     = Inr \<lparr>empty_flag = JBool False\<rparr> \<and>
   TrialRecord_init (TrialRecord_to_json \<lparr>active = JBool False\<rparr>) = Inr \<lparr>active = JBool False\<rparr> \<and>
   SongRecord_init (SongRecord_to_json \<lparr>song_notes = JStr ''<^>v''\<rparr>)
     = Inr \<lparr>song_notes = JStr ''<^>v''\<rparr> \<and>
   ItemPoolRecord_init (ItemPoolRecord_to_json \<lparr>ptype = ''add'', pcount = 2\<rparr>)
     = Inr \<lparr>ptype = ''add'', pcount = 2\<rparr> \<and>
   bindE (GossipRecord_to_json
            \<lparr>gtext = Some (JStr ''hello''), colors = JList [JStr ''Red''],
               hinted_locations = JNull, hinted_items = JNull\<rparr>) GossipRecord_init
     = Inr \<lparr>gtext = Some (JStr ''hello''), colors = JList [JStr ''Red''],
               hinted_locations = JNull, hinted_items = JNull\<rparr> \<and>
   bindE (LocationRecord_to_json (\<lambda>v. [])
            \<lparr>item = JList [JStr ''Bow'', JStr ''Hookshot''], player = JInt 2,
               price = Some JNull, model = Some JNull\<rparr>) LocationRecord_init
     = Inr \<lparr>item = JList [JStr ''Bow'', JStr ''Hookshot''], player = JInt 2,
               price = Some JNull, model = Some JNull\<rparr> \<and>
   bindE (EntranceRecord_to_json (\<lambda>v. [])
            \<lparr>region = JStr ''Kokiri Forest'', origin = JStr ''Lost Woods''\<rparr>) EntranceRecord_init
     = Inr \<lparr>region = JStr ''Kokiri Forest'', origin = JStr ''Lost Woods''\<rparr>"
proof -
  let ?dr = "\<lparr>mq = JBool True\<rparr>" and ?er = "\<lparr>empty_flag = JBool False\<rparr>"
  let ?tr = "\<lparr>active = JBool False\<rparr>" and ?sr = "\<lparr>song_notes = JStr ''<^>v''\<rparr>"
  let ?ir = "\<lparr>ptype = ''add'', pcount = 2\<rparr>"
  let ?gr = "\<lparr>gtext = Some (JStr ''hello''), colors = JList [JStr ''Red''],
               hinted_locations = JNull, hinted_items = JNull\<rparr>"
  let ?lr = "\<lparr>item = JList [JStr ''Bow'', JStr ''Hookshot''], player = JInt 2,
               price = Some JNull, model = Some JNull\<rparr>"
  let ?nr = "\<lparr>region = JStr ''Kokiri Forest'', origin = JStr ''Lost Woods''\<rparr>"
  have h: "is_null_or_bool (mq ?dr)" "is_null_or_bool (empty_flag ?er)"
    "is_null_or_bool (active ?tr)" "is_null_or_str (song_notes ?sr)"
    "valid_ItemPoolRecord ?ir" "gtext ?gr \<noteq> None"
    "roundtrips_LocationRecord ?lr" "roundtrips_EntranceRecord ?nr"
    by (simp_all add: is_null_or_bool_def is_null_or_str_def valid_ItemPoolRecord_def
        roundtrips_LocationRecord_def roundtrips_EntranceRecord_def)
  from h Record_roundtrip
    [where dr = ?dr and er = ?er and tr = ?tr and sr = ?sr and ir = ?ir and gr = ?gr
       and lr = ?lr and nr = ?nr and str_of = "\<lambda>v. []" and st = "\<lparr>count = 1\<rparr>"]
  show ?thesis by blast
qed

theorem Record_default_not_empty:
  "\<not> empty_representation (DungeonRecord_to_json \<lparr>mq = JNull\<rparr>)"
  by (simp add: empty_representation_def DungeonRecord_to_json_def)


text \<open>
  Claim C9. Loading a dict document into an ItemPoolRecord, by construction
  (\<open>update_all\<close>) or by an incremental update: with the resulting count an integer
  \<open>n\<close> and the resulting type \<open>t\<close>, \<open>update\<close> raises a \<open>ValueError\<close> when \<open>n\<close> is
  negative or \<open>t\<close> is not one of \<open>add\<close>, \<open>remove\<close>, \<open>set\<close>, and otherwise succeeds with
  exactly this type and count. The constructor is the update of the default record
  with \<open>update_all\<close>, and an integer document is a count.
\<close>

theorem ItemPoolRecord_update_checks:
  "count_of_json (if update_all \<or> has_key d ''count'' then dict_get d ''count'' (JInt 1)
                  else JInt (pcount self)) = Inr n \<Longrightarrow>
   t = (if update_all \<or> has_key d ''type'' then dict_get d ''type'' (JStr ''set'')
        else JStr (ptype self)) \<Longrightarrow>
   (n < 0 \<longrightarrow> ItemPoolRecord_update self (JDict d) update_all
        = Inl (ValueError ''Count cannot be negative in a ItemPoolRecord.'')) \<and>
   (0 \<le> n \<and> t \<notin> JStr ` set [''add'', ''remove'', ''set''] \<longrightarrow>
      ItemPoolRecord_update self (JDict d) update_all
        = Inl (ValueError ''Type must be 'add', 'remove', or 'set' in a ItemPoolRecord.'')) \<and>
   (\<forall>ty. 0 \<le> n \<and> t = JStr ty \<and> ty \<in> set [''add'', ''remove'', ''set''] \<longrightarrow>
      ItemPoolRecord_update self (JDict d) update_all = Inr \<lparr>ptype = ty, pcount = n\<rparr>) \<and>
   ItemPoolRecord_init (JDict d)
     = ItemPoolRecord_update \<lparr>ptype = ''set'', pcount = 1\<rparr> (JDict d) True \<and>
   ItemPoolRecord_init (JInt m)
     = (if m < 0 then Inl (ValueError ''Count cannot be negative in a ItemPoolRecord.'')
        else Inr \<lparr>ptype = ''set'', pcount = m\<rparr>)"
proof (intro conjI impI allI)
  assume c: "count_of_json (if update_all \<or> has_key d ''count'' then dict_get d ''count'' (JInt 1)
                  else JInt (pcount self)) = Inr n"
    and t: "t = (if update_all \<or> has_key d ''type'' then dict_get d ''type'' (JStr ''set'')
        else JStr (ptype self))"
  note upd = ItemPoolRecord_update_dict [OF c, folded t]
  show "ItemPoolRecord_update self (JDict d) update_all
        = Inl (ValueError ''Count cannot be negative in a ItemPoolRecord.'')" if "n < 0"
    using that by (simp add: upd)
  show "ItemPoolRecord_update self (JDict d) update_all
        = Inl (ValueError ''Type must be 'add', 'remove', or 'set' in a ItemPoolRecord.'')"
    if "0 \<le> n \<and> t \<notin> JStr ` set [''add'', ''remove'', ''set'']"
    using that by (cases t) (auto simp: upd)
  show "ItemPoolRecord_update self (JDict d) update_all = Inr \<lparr>ptype = ty, pcount = n\<rparr>"
    if "0 \<le> n \<and> t = JStr ty \<and> ty \<in> set [''add'', ''remove'', ''set'']" for ty
    using that by (auto simp: upd)
  show "ItemPoolRecord_init (JDict d)
     = ItemPoolRecord_update \<lparr>ptype = ''set'', pcount = 1\<rparr> (JDict d) True"
    by (rule ItemPoolRecord_init_cases)
  show "ItemPoolRecord_init (JInt m)
     = (if m < 0 then Inl (ValueError ''Count cannot be negative in a ItemPoolRecord.'')
        else Inr \<lparr>ptype = ''set'', pcount = m\<rparr>)"
    by (rule ItemPoolRecord_init_cases)
qed

theorem ItemPoolRecord_update_checks_witness:
  "ItemPoolRecord_update \<lparr>ptype = ''set'', pcount = 1\<rparr>
      (JDict [(''type'', JStr ''remove''), (''count'', JInt 3)]) False
     = Inr \<lparr>ptype = ''remove'', pcount = 3\<rparr> \<and>
   ItemPoolRecord_init (JDict [(''type'', JStr ''remove''), (''count'', JInt 3)])
     = Inr \<lparr>ptype = ''remove'', pcount = 3\<rparr>"
proof -
  let ?d = "[(''type'', JStr ''remove''), (''count'', JInt 3)]"
  have c: "count_of_json (if False \<or> has_key ?d ''count'' then dict_get ?d ''count'' (JInt 1)
                  else JInt (pcount \<lparr>ptype = ''set'', pcount = 1\<rparr>)) = Inr 3"
    by (simp add: has_key_def dict_get_def count_of_json_def)
  have c': "count_of_json (if True \<or> has_key ?d ''count'' then dict_get ?d ''count'' (JInt 1)
                  else JInt (pcount \<lparr>ptype = ''set'', pcount = 1\<rparr>)) = Inr 3"
    by (simp add: has_key_def dict_get_def count_of_json_def)
  from ItemPoolRecord_update_checks [OF c refl] ItemPoolRecord_update_checks [OF c' refl]
  show ?thesis
    by (simp add: has_key_def dict_get_def)
qed

text \<open>
  The same update at a negative count and at an unknown type.
\<close>

lemma ItemPoolRecord_update_rejects:
  "ItemPoolRecord_init (JInt (- 1))
     = Inl (ValueError ''Count cannot be negative in a ItemPoolRecord.'')"
  "ItemPoolRecord_init (JDict [(''type'', JStr ''replace'')])
     = Inl (ValueError ''Type must be 'add', 'remove', or 'set' in a ItemPoolRecord.'')"
  by (simp_all add: ItemPoolRecord_init_cases ItemPoolRecord_update_dict [where n = 1]
        has_key_def dict_get_def count_of_json_def)


text \<open>
  Claim C10. \<open>pull_random_element\<close> returns \<open>None\<close> exactly when no element of any
  pool satisfies the predicate, and then changes nothing. Otherwise the element it
  returns satisfies the predicate and stands in one of the pools; with \<open>remove\<close> that
  pool loses one occurrence of it, every other pool and element stays as it was, and
  the total number of elements drops by exactly one; without \<open>remove\<close> the pools are
  unchanged.
\<close>

theorem pull_random_element_spec:
  "pull_random_element rnd pools P remove g = (r, pools', g') \<Longrightarrow>
     ((r = None) = (\<forall>pool \<in> set pools. \<forall>e \<in> set pool. \<not> P e)) \<and>
     (r = None \<longrightarrow> pools' = pools) \<and>
     (\<forall>e. r = Some e \<longrightarrow>
        P e \<and>
        (\<exists>i < length pools. e \<in> set (pools ! i) \<and>
           pools' = (if remove then pools[i := remove1 e (pools ! i)] else pools) \<and>
           (remove \<longrightarrow> mset (pools' ! i) + {#e#} = mset (pools ! i))) \<and>
        (remove \<longrightarrow> sum_list (map length pools') + 1 = sum_list (map length pools)))"
proof (intro conjI allI impI)
  assume eq: "pull_random_element rnd pools P remove g = (r, pools', g')"
  show "(r = None) = (\<forall>pool \<in> set pools. \<forall>e \<in> set pool. \<not> P e)"
    using pull_random_element_None [of rnd pools P remove g] eq by simp
  show "pools' = pools" if "r = None"
    using pull_random_element_None_state [of rnd pools P remove g pools' g'] eq that by simp
  fix e assume some: "r = Some e"
  from pull_random_element_Some [of rnd pools P remove g e pools' g'] eq some
  obtain i where i: "i < length pools" "e \<in> set (pools ! i)" "P e"
    "pools' = (if remove then pools[i := remove1 e (pools ! i)] else pools)"
    by auto
  show "P e" by (rule i(3))
  show "\<exists>i < length pools. e \<in> set (pools ! i) \<and>
           pools' = (if remove then pools[i := remove1 e (pools ! i)] else pools) \<and>
           (remove \<longrightarrow> mset (pools' ! i) + {#e#} = mset (pools ! i))"
  proof (intro exI [of _ i] conjI impI)
    show "i < length pools" "e \<in> set (pools ! i)"
      "pools' = (if remove then pools[i := remove1 e (pools ! i)] else pools)"
      by (rule i)+
    show "mset (pools' ! i) + {#e#} = mset (pools ! i)" if "remove"
      using i that by simp
  qed
  show "sum_list (map length pools') + 1 = sum_list (map length pools)" if "remove"
    using i that sum_length_remove1 [of i pools e] by simp
qed

theorem pull_random_element_spec_witness:
  "pull_random_element (\<lambda>g. (g, Suc g)) [[1, 2], [3, 4 :: nat]] (\<lambda>x. 1 < x) True (1 :: nat)
       = (Some 3, [[1, 2], [4]], 2) \<and>
   (1 :: nat) < 3 \<and>
   sum_list (map length [[1, 2], [4 :: nat]]) + 1 = sum_list (map length [[1, 2], [3, 4 :: nat]])"
proof -
  have eq: "pull_random_element (\<lambda>g. (g, Suc g)) [[1, 2], [3, 4 :: nat]] (\<lambda>x. 1 < x) True (1 :: nat)
       = (Some 3, [[1, 2], [4]], 2)"
    by (simp add: pull_random_element_def candidates_def enumerate_eq_zip choice_def Let_def)
  from pull_random_element_spec [OF eq] eq show ?thesis by simp
qed


end
